theory Spec2Isabelle
  imports Main
begin

section \<open>JavaScript values held by the options\<close>

text \<open>
  The fields of the options object are untyped in the source. The values modelled here
  are \<open>undefined\<close>, \<open>null\<close>, booleans, numbers that are safe integers (of absolute
  value below \<open>2^53\<close>, which a double holds exactly and JavaScript prints in exact
  decimal), primitive strings (ASCII), regular expressions, arrays, and functions.

  A regular expression object is its printed form, its \<open>g\<close> and \<open>y\<close> flags, its
  \<open>lastIndex\<close> property, and the matcher of its pattern: \<open>re_match r i s\<close> is the
  position just after the match that the pattern finds in \<open>s\<close> when matching starts at
  position \<open>i\<close> (searching forward from \<open>i\<close>, or at \<open>i\<close> only with the \<open>y\<close> flag), and
  \<open>None\<close> when it finds none. The matcher belongs to the pattern and never changes;
  \<open>lastIndex\<close> is the state of the object. Objects are values here: an object that
  occurs twice in the options is two objects.

  A function carries its \<open>length\<close> property (the number of declared parameters), its
  source text (what \<open>toString\<close> prints) and, for the one place where the source calls a
  function held by the options (the \<open>origin\<close> callback), what it passes to the
  node-style callback it is given: \<open>None\<close> when it does not call back, \<open>Some (err, value)\<close>
  when it calls \<open>cb(err, value)\<close>.
\<close>

record regexp =
  re_source :: string
  re_global :: bool
  re_sticky :: bool
  re_lastIndex :: nat
  re_match :: "nat \<Rightarrow> string \<Rightarrow> nat option"

text \<open>
  \<open>RegExp.prototype.test\<close>, as the language defines it: with the \<open>g\<close> or \<open>y\<close> flag
  matching starts at \<open>lastIndex\<close> (and fails when that is beyond the end of the
  string), without them at 0; with the \<open>g\<close> or \<open>y\<close> flag \<open>lastIndex\<close> is then set to
  the end of the match, or to 0 when there is none. \<open>test\<close> is the value returned,
  \<open>after_test\<close> the object as the call leaves it.
\<close>

definition exec :: "regexp \<Rightarrow> string \<Rightarrow> nat option" where
  "exec r s =
     (let i = (if re_global r \<or> re_sticky r then re_lastIndex r else 0)
      in if length s < i then None else re_match r i s)"

definition test :: "regexp \<Rightarrow> string \<Rightarrow> bool" where
  "test r s = (case exec r s of None \<Rightarrow> False | Some e \<Rightarrow> True)"


datatype jsval =
    JUndefined
  | JNull
  | JBool bool
  | JNum int
  | JStr string
  | JRegExp regexp
  | JArr "jsval list"
  | JFun nat string "string option \<Rightarrow> (jsval \<times> jsval) option"

text \<open>Truthiness, as tested by \<open>if (v)\<close>, \<open>!v\<close>, \<open>v && ...\<close> and \<open>v || ...\<close>.\<close>

fun truthy :: "jsval \<Rightarrow> bool" where
  "truthy JUndefined = False"
| "truthy JNull = False"
| "truthy (JBool b) = b"
| "truthy (JNum n) = (n \<noteq> 0)"
| "truthy (JStr s) = (s \<noteq> [])"
| "truthy (JRegExp r) = True"
| "truthy (JArr xs) = True"
| "truthy (JFun n src f) = True"

text \<open>\<open>a || b\<close> and \<open>a && b\<close> on values.\<close>

definition js_or :: "jsval \<Rightarrow> jsval \<Rightarrow> jsval" where
  "js_or a b = (if truthy a then a else b)"

definition js_and :: "jsval \<Rightarrow> jsval \<Rightarrow> jsval" where
  "js_and a b = (if truthy a then b else a)"

text \<open>
  Strict equality \<open>v === 'literal'\<close> with a primitive string, and \<open>v === true\<close>: no
  conversion takes place, so only a primitive string (the boolean \<open>true\<close>) is equal.
\<close>

fun strict_eq_string :: "jsval \<Rightarrow> string \<Rightarrow> bool" where
  "strict_eq_string (JStr s) t = (s = t)"
| "strict_eq_string v t = False"

fun strict_eq_true :: "jsval \<Rightarrow> bool" where
  "strict_eq_true (JBool b) = b"
| "strict_eq_true v = False"

fun typeof_number :: "jsval \<Rightarrow> bool" where
  "typeof_number (JNum n) = True"
| "typeof_number v = False"

text \<open>Decimal printing of a number that is a safe integer.\<close>

definition digit_char :: "nat \<Rightarrow> char" where
  "digit_char d = char_of (48 + d)"

fun digits :: "nat \<Rightarrow> string" where
  "digits n = (if n < 10 then [digit_char n] else digits (n div 10) @ [digit_char (n mod 10)])"

declare digits.simps [simp del]

definition number_toString :: "int \<Rightarrow> string" where
  "number_toString n = (if n < 0 then CHR ''-'' # digits (nat (- n)) else digits (nat n))"

text \<open>
  Conversion to a string (\<open>String(v)\<close>; the same as \<open>v.toString()\<close> on every value other
  than \<open>undefined\<close> and \<open>null\<close>), and \<open>Array.prototype.join\<close> with the separator \<open>','\<close>,
  the only one the source uses: \<open>undefined\<close> and \<open>null\<close> elements print as the empty
  string.
\<close>

fun toString :: "jsval \<Rightarrow> string"
  and join_elem :: "jsval \<Rightarrow> string"
  and join :: "jsval list \<Rightarrow> string" where
  "toString JUndefined = ''undefined''"
| "toString JNull = ''null''"
| "toString (JBool b) = (if b then ''true'' else ''false'')"
| "toString (JNum n) = number_toString n"
| "toString (JStr s) = s"
| "toString (JRegExp r) = re_source r"
| "toString (JArr xs) = join xs"
| "toString (JFun n src f) = src"
| "join_elem JUndefined = []"
| "join_elem JNull = []"
| "join_elem v = toString v"
| "join [] = []"
| "join [x] = join_elem x"
| "join (x # y # ys) = join_elem x @ '','' @ join (y # ys)"

text \<open>The \<open>length\<close> property of a value (\<open>undefined\<close> where the value has none).\<close>

fun length_prop :: "jsval \<Rightarrow> jsval" where
  "length_prop (JStr s) = JNum (int (length s))"
| "length_prop (JArr xs) = JNum (int (length xs))"
| "length_prop (JFun n src f) = JNum (int n)"
| "length_prop v = JUndefined"

text \<open>\<open>String.prototype.toUpperCase\<close> on ASCII strings.\<close>

definition upper_char :: "char \<Rightarrow> char" where
  "upper_char c =
     (let n = (of_char c :: nat) in if 97 \<le> n \<and> n \<le> 122 then char_of (n - 32) else c)"

definition toUpperCase :: "string \<Rightarrow> string" where
  "toUpperCase s = map upper_char s"


section \<open>Options, request, response\<close>

text \<open>
  An options object is a finite map from property names to values; reading a property
  that is absent gives \<open>undefined\<close>. A property that is present with the value
  \<open>undefined\<close> is not the same as an absent one: \<open>assign\<close> copies it.
\<close>

type_synonym options = "string \<rightharpoonup> jsval"

definition get :: "options \<Rightarrow> string \<Rightarrow> jsval" where
  "get obj k = (case obj k of None \<Rightarrow> JUndefined | Some v \<Rightarrow> v)"

definition defaults :: options where
  "defaults =
     [''origin'' \<mapsto> JStr ''*'',
      ''methods'' \<mapsto> JStr ''GET,HEAD,PUT,PATCH,POST,DELETE'',
      ''preflightContinue'' \<mapsto> JBool False,
      ''optionsSuccessStatus'' \<mapsto> JNum 204]"

text \<open>
  \<open>assign({}, defaults, options)\<close>: the properties of \<open>options\<close> over those of the
  defaults; a source that is \<open>undefined\<close> or \<open>null\<close> (\<open>None\<close>) is skipped.
\<close>

definition assign :: "options \<Rightarrow> options option \<Rightarrow> options" where
  "assign d src = (case src of None \<Rightarrow> d | Some obj \<Rightarrow> d ++ obj)"

text \<open>
  The request: its method and its headers (in Node the names are lower case and the
  values are strings).
\<close>

record request =
  req_method :: "string option"
  req_headers :: "string \<rightharpoonup> string"

definition header :: "request \<Rightarrow> string \<Rightarrow> jsval" where
  "header req k = (case req_headers req k of None \<Rightarrow> JUndefined | Some s \<Rightarrow> JStr s)"

text \<open>
  The response sink: the status code, the headers that were set (\<open>setHeader\<close>
  overwrites), the fields merged into the \<open>Vary\<close> header by the \<open>vary\<close> package, in the
  order of the calls, and whether the response was ended. The \<open>vary\<close> package is not
  part of the repository: a call \<open>vary(res, field)\<close> is recorded on the sink. Header
  names are kept as the source writes them; it writes each name in one spelling only.
\<close>

record response =
  res_statusCode :: jsval
  res_headers :: "string \<rightharpoonup> jsval"
  res_vary :: "jsval list"
  res_ended :: bool

definition setHeader :: "response \<Rightarrow> string \<Rightarrow> jsval \<Rightarrow> response" where
  "setHeader r k v = r\<lparr>res_headers := (res_headers r)(k \<mapsto> v)\<rparr>"

definition vary :: "response \<Rightarrow> jsval \<Rightarrow> response" where
  "vary r field = r\<lparr>res_vary := res_vary r @ [field]\<rparr>"

definition set_statusCode :: "response \<Rightarrow> jsval \<Rightarrow> response" where
  "set_statusCode r v = r\<lparr>res_statusCode := v\<rparr>"

definition end_response :: "response \<Rightarrow> response" where
  "end_response r = r\<lparr>res_ended := True\<rparr>"

text \<open>
  The state a request is handled in: the response, and the calls of the continuation
  \<open>next\<close> made so far, each with its argument and the response as it is when control
  is handed over.
\<close>

record world =
  res :: response
  next_calls :: "(jsval \<times> response) list"

definition call_next :: "jsval \<Rightarrow> world \<Rightarrow> world" where
  "call_next arg w = w\<lparr>next_calls := next_calls w @ [(arg, res w)]\<rparr>"

datatype error = TypeError

section \<open>Header directives\<close>

text \<open>
  What the \<open>configure...\<close> functions return and \<open>applyHeaders\<close> consumes: \<open>null\<close>, an
  object \<open>{key, value}\<close>, or an array of these.
\<close>

datatype directive =
    DNull
  | Directive string jsval
  | Directives "directive list"

fun isString :: "jsval \<Rightarrow> bool" where
  "isString (JStr s) = True"
| "isString v = False"

fun isOriginAllowed :: "jsval \<Rightarrow> jsval \<Rightarrow> bool"
  and isOriginAllowed_loop :: "jsval \<Rightarrow> jsval list \<Rightarrow> bool" where
  "isOriginAllowed origin (JArr xs) = isOriginAllowed_loop origin xs"
| "isOriginAllowed origin (JStr s) = strict_eq_string origin s"
| "isOriginAllowed origin (JRegExp r) = test r (toString origin)"
| "isOriginAllowed origin JUndefined = truthy JUndefined"
| "isOriginAllowed origin JNull = truthy JNull"
| "isOriginAllowed origin (JBool b) = truthy (JBool b)"
| "isOriginAllowed origin (JNum n) = truthy (JNum n)"
| "isOriginAllowed origin (JFun n src f) = truthy (JFun n src f)"
| "isOriginAllowed_loop origin [] = False"
| "isOriginAllowed_loop origin (x # xs) =
     (if isOriginAllowed origin x then True else isOriginAllowed_loop origin xs)"


definition configureOrigin :: "options \<Rightarrow> request \<Rightarrow> directive list" where
  "configureOrigin options req =
     (let requestOrigin = header req ''origin'' in
      if \<not> truthy (get options ''origin'') \<or> strict_eq_string (get options ''origin'') ''*'' then
        [Directives [Directive ''Access-Control-Allow-Origin'' (JStr ''*'')]]
      else if isString (get options ''origin'') then
        [Directives [Directive ''Access-Control-Allow-Origin'' (get options ''origin'')],
         Directives [Directive ''Vary'' (JStr ''Origin'')]]
      else
        (let isAllowed = isOriginAllowed requestOrigin (get options ''origin'') in
         [Directives [Directive ''Access-Control-Allow-Origin''
                        (if isAllowed then requestOrigin else JBool False)],
          Directives [Directive ''Vary'' (JStr ''Origin'')]]))"


text \<open>
  \<open>if (v.join) v = v.join(',')\<close>: of the values modelled, arrays alone have a \<open>join\<close>
  property. Reading a property of \<open>undefined\<close> or \<open>null\<close> throws a \<open>TypeError\<close>.
\<close>

fun nullish :: "jsval \<Rightarrow> bool" where
  "nullish JUndefined = True"
| "nullish JNull = True"
| "nullish v = False"

fun join_if_array :: "jsval \<Rightarrow> jsval" where
  "join_if_array (JArr xs) = JStr (join xs)"
| "join_if_array v = v"

definition configureMethods :: "options \<Rightarrow> error + directive" where
  "configureMethods options =
     (let methods = get options ''methods'' in
      if nullish methods then Inl TypeError
      else Inr (Directive ''Access-Control-Allow-Methods'' (join_if_array methods)))"

definition configureCredentials :: "options \<Rightarrow> directive" where
  "configureCredentials options =
     (if strict_eq_true (get options ''credentials'')
      then Directive ''Access-Control-Allow-Credentials'' (JStr ''true'')
      else DNull)"

definition configureAllowedHeaders :: "options \<Rightarrow> request \<Rightarrow> directive list" where
  "configureAllowedHeaders options req =
     (let allowedHeaders = js_or (get options ''allowedHeaders'') (get options ''headers'');
          headers = (if \<not> truthy allowedHeaders
                     then [Directives [Directive ''Vary'' (JStr ''Access-Control-Request-Headers'')]]
                     else []);
          allowedHeaders = (if \<not> truthy allowedHeaders
                            then header req ''access-control-request-headers''
                            else join_if_array allowedHeaders)
      in if truthy (js_and allowedHeaders (length_prop allowedHeaders))
         then headers @ [Directives [Directive ''Access-Control-Allow-Headers'' allowedHeaders]]
         else headers)"

definition configureExposedHeaders :: "options \<Rightarrow> directive" where
  "configureExposedHeaders options =
     (let headers = get options ''exposedHeaders'' in
      if \<not> truthy headers then DNull
      else (let headers = join_if_array headers in
            if truthy (js_and headers (length_prop headers))
            then Directive ''Access-Control-Expose-Headers'' headers
            else DNull))"

definition configureMaxAge :: "options \<Rightarrow> directive" where
  "configureMaxAge options =
     (let maxAge = (if typeof_number (get options ''maxAge'') \<or> truthy (get options ''maxAge'')
                    then JStr (toString (get options ''maxAge''))
                    else get options ''maxAge'')
      in if truthy (js_and maxAge (length_prop maxAge))
         then Directive ''Access-Control-Max-Age'' maxAge
         else DNull)"

fun applyHeaders :: "directive list \<Rightarrow> response \<Rightarrow> response"
  and applyHeader :: "directive \<Rightarrow> response \<Rightarrow> response" where
  "applyHeaders [] r = r"
| "applyHeaders (h # hs) r = applyHeaders hs (applyHeader h r)"
| "applyHeader DNull r = r"
| "applyHeader (Directives hs) r = applyHeaders hs r"
| "applyHeader (Directive k v) r =
     (if k = ''Vary'' \<and> truthy v then vary r v
      else if truthy v then setHeader r k v
      else r)"

section \<open>The handler\<close>

text \<open>The variable \<open>method\<close> of \<open>cors\<close>: \<open>req.method && req.method.toUpperCase()\<close>.\<close>

definition method_upper :: "request \<Rightarrow> jsval" where
  "method_upper req =
     (case req_method req of
        None \<Rightarrow> JUndefined
      | Some m \<Rightarrow> if m = [] then JStr [] else JStr (toUpperCase m))"

text \<open>The array \<open>headers\<close> that \<open>cors\<close> builds on each of its two paths.\<close>

definition preflight_headers :: "options \<Rightarrow> request \<Rightarrow> error + directive list" where
  "preflight_headers options req =
     (case configureMethods options of
        Inl e \<Rightarrow> Inl e
      | Inr methods \<Rightarrow>
          Inr [Directives (configureOrigin options req),
               configureCredentials options,
               methods,
               Directives (configureAllowedHeaders options req),
               configureMaxAge options,
               configureExposedHeaders options])"

definition actual_headers :: "options \<Rightarrow> request \<Rightarrow> directive list" where
  "actual_headers options req =
     [Directives (configureOrigin options req),
      configureCredentials options,
      configureExposedHeaders options]"

definition cors :: "options \<Rightarrow> request \<Rightarrow> world \<Rightarrow> error + world" where
  "cors options req w =
     (if strict_eq_string (method_upper req) ''OPTIONS'' then
        (case preflight_headers options req of
           Inl e \<Rightarrow> Inl e
         | Inr headers \<Rightarrow>
             (let w1 = w\<lparr>res := applyHeaders headers (res w)\<rparr> in
              if truthy (get options ''preflightContinue'') then Inr (call_next JUndefined w1)
              else Inr (w1\<lparr>res := end_response
                           (setHeader (set_statusCode (res w1) (get options ''optionsSuccessStatus''))
                              ''Content-Length'' (JStr ''0''))\<rparr>)))
      else
        (let w1 = w\<lparr>res := applyHeaders (actual_headers options req) (res w)\<rparr> in
         Inr (call_next JUndefined w1)))"



text \<open>
  The argument of \<open>middlewareWrapper\<close>: a static options object (\<open>None\<close> when it is
  \<open>undefined\<close>), or a function that is given the request and a node-style callback.
  As for the origin callback, the function is what it passes to that callback, if it
  calls it.
\<close>

datatype options_arg =
    StaticOptions "options option"
  | OptionsFunction "request \<Rightarrow> (jsval \<times> options option) option"

definition optionsCallback :: "options_arg \<Rightarrow> request \<Rightarrow> (jsval \<times> options option) option" where
  "optionsCallback arg req =
     (case arg of
        OptionsFunction f \<Rightarrow> f req
      | StaticOptions opts \<Rightarrow> Some (JNull, opts))"

definition originCallback ::
    "options \<Rightarrow> (string option \<Rightarrow> (jsval \<times> jsval) option) option" where
  "originCallback corsOptions =
     (case get corsOptions ''origin'' of
        JFun n src f \<Rightarrow> Some f
      | v \<Rightarrow> if truthy v then Some (\<lambda>origin. Some (JNull, v)) else None)"

definition middlewareWrapper :: "options_arg \<Rightarrow> request \<Rightarrow> world \<Rightarrow> error + world" where
  "middlewareWrapper arg req w =
     (case optionsCallback arg req of
        None \<Rightarrow> Inr w
      | Some (err, options) \<Rightarrow>
          if truthy err then Inr (call_next err w)
          else
            (let corsOptions = assign defaults options in
             case originCallback corsOptions of
               None \<Rightarrow> Inr (call_next JUndefined w)
             | Some cb \<Rightarrow>
                 (case cb (req_headers req ''origin'') of
                    None \<Rightarrow> Inr w
                  | Some (err2, origin) \<Rightarrow>
                      if truthy err2 \<or> \<not> truthy origin then Inr (call_next err2 w)
                      else cors (corsOptions(''origin'' \<mapsto> origin)) req w)))"

section \<open>The effect of a list of directives\<close>

text \<open>
  Two summaries of a directive tree, used to state what \<open>applyHeaders\<close> does: the
  headers it sets (key and value, in the order of the calls of \<open>setHeader\<close>) and the
  fields it passes to \<open>vary\<close>.
\<close>

fun sets :: "directive list \<Rightarrow> (string \<times> jsval) list"
  and sets1 :: "directive \<Rightarrow> (string \<times> jsval) list" where
  "sets [] = []"
| "sets (h # hs) = sets1 h @ sets hs"
| "sets1 DNull = []"
| "sets1 (Directives hs) = sets hs"
| "sets1 (Directive k v) = (if k \<noteq> ''Vary'' \<and> truthy v then [(k, v)] else [])"

fun varies :: "directive list \<Rightarrow> jsval list"
  and varies1 :: "directive \<Rightarrow> jsval list" where
  "varies [] = []"
| "varies (h # hs) = varies1 h @ varies hs"
| "varies1 DNull = []"
| "varies1 (Directives hs) = varies hs"
| "varies1 (Directive k v) = (if k = ''Vary'' \<and> truthy v then [v] else [])"

text \<open>
  The array \<open>headers\<close> of the preflight path when \<open>configureMethods\<close> returns.
\<close>

definition preflight_plan :: "options \<Rightarrow> request \<Rightarrow> directive list" where
  "preflight_plan options req =
     [Directives (configureOrigin options req),
      configureCredentials options,
      Directive ''Access-Control-Allow-Methods'' (join_if_array (get options ''methods'')),
      Directives (configureAllowedHeaders options req),
      configureMaxAge options,
      configureExposedHeaders options]"

text \<open>
  A response on which nothing has been done yet, and the state in which a request
  arrives: used where a theorem is evaluated on a concrete request.
\<close>

text \<open>
  Two regular expressions: \<open>/.*/\<close>, whose match at a position runs to the end of the
  line, and \<open>/^http:[/][/]a[.]com$/g\<close>, which matches the one string \<open>http://a.com\<close>,
  from position 0 only, and has the \<open>g\<close> flag.
\<close>

definition any_line :: regexp where
  "any_line =
     \<lparr>re_source = ''/.*/'', re_global = False, re_sticky = False, re_lastIndex = 0,
      re_match = (\<lambda>i s. Some (i + length (takeWhile (\<lambda>c. c \<noteq> CHR 0x0A \<and> c \<noteq> CHR 0x0D)
                                                   (drop i s))))\<rparr>"


definition new_response :: response where
  "new_response =
     \<lparr>res_statusCode = JNum 200, res_headers = Map.empty, res_vary = [], res_ended = False\<rparr>"

definition start :: world where
  "start = \<lparr>res = new_response, next_calls = []\<rparr>"

section \<open>Basic facts\<close>

lemma applyHeaders_closed:
  "applyHeaders hs r = r\<lparr>res_headers := res_headers r ++ map_of (rev (sets hs)),
                          res_vary := res_vary r @ varies hs\<rparr>"
  "applyHeader h r = r\<lparr>res_headers := res_headers r ++ map_of (rev (sets1 h)),
                          res_vary := res_vary r @ varies1 h\<rparr>"
  by (induction hs r and h r rule: applyHeaders_applyHeader.induct)
     (auto simp: setHeader_def vary_def map_add_def fun_eq_iff split: option.splits)

lemma strict_eq_string_iff: "strict_eq_string v s \<longleftrightarrow> v = JStr s"
  by (cases v) auto

lemma strict_eq_true_iff: "strict_eq_true v \<longleftrightarrow> v = JBool True"
  by (cases v) auto

lemma isString_iff: "isString v \<longleftrightarrow> (\<exists>s. v = JStr s)"
  by (cases v) auto

lemma is_preflight_iff:
  "strict_eq_string (method_upper req) ''OPTIONS'' \<longleftrightarrow>
     (\<exists>m. req_method req = Some m \<and> toUpperCase m = ''OPTIONS'')"
  by (auto simp: method_upper_def strict_eq_string_iff toUpperCase_def split: option.splits)

lemma digits_nonempty: "digits n \<noteq> []"
  by (subst digits.simps) simp

lemma number_toString_nonempty: "number_toString n \<noteq> []"
  by (simp add: number_toString_def digits_nonempty)

lemma sets_configureOrigin:
  "sets (configureOrigin options req) =
     (let v = get options ''origin'' in
      if \<not> truthy v \<or> v = JStr ''*'' then [(''Access-Control-Allow-Origin'', JStr ''*'')]
      else if isString v then [(''Access-Control-Allow-Origin'', v)]
      else if isOriginAllowed (header req ''origin'') v \<and> truthy (header req ''origin'')
           then [(''Access-Control-Allow-Origin'', header req ''origin'')]
      else [])"
  by (auto simp: configureOrigin_def Let_def strict_eq_string_iff isString_iff)

lemma varies_configureOrigin:
  "varies (configureOrigin options req) =
     (let v = get options ''origin'' in
      if \<not> truthy v \<or> v = JStr ''*'' then [] else [JStr ''Origin''])"
  by (auto simp: configureOrigin_def Let_def strict_eq_string_iff isString_iff)

lemma sets1_configureCredentials:
  "sets1 (configureCredentials options) =
     (if get options ''credentials'' = JBool True
      then [(''Access-Control-Allow-Credentials'', JStr ''true'')] else [])"
  by (simp add: configureCredentials_def strict_eq_true_iff)

lemma varies1_configureCredentials: "varies1 (configureCredentials options) = []"
  by (simp add: configureCredentials_def)

lemma configureMaxAge_eq:
  "configureMaxAge options =
     (let m = get options ''maxAge'' in
      if (typeof_number m \<or> truthy m) \<and> toString m \<noteq> []
      then Directive ''Access-Control-Max-Age'' (JStr (toString m)) else DNull)"
  by (cases "get options ''maxAge''") (auto simp: configureMaxAge_def Let_def js_and_def)

lemma sets1_configureMaxAge:
  "sets1 (configureMaxAge options) =
     (let m = get options ''maxAge'' in
      if (typeof_number m \<or> truthy m) \<and> toString m \<noteq> []
      then [(''Access-Control-Max-Age'', JStr (toString m))] else [])"
  by (simp add: configureMaxAge_eq Let_def)

lemma varies1_configureMaxAge: "varies1 (configureMaxAge options) = []"
  by (simp add: configureMaxAge_eq Let_def)

lemma configureExposedHeaders_cases:
  "configureExposedHeaders options = DNull \<or>
   (\<exists>v. configureExposedHeaders options = Directive ''Access-Control-Expose-Headers'' v \<and> truthy v)"
  by (auto simp: configureExposedHeaders_def Let_def js_and_def split: if_splits)

lemma sets1_configureExposedHeaders:
  "sets1 (configureExposedHeaders options) = [] \<or>
   (\<exists>v. sets1 (configureExposedHeaders options) = [(''Access-Control-Expose-Headers'', v)])"
  using configureExposedHeaders_cases [of options] by auto

lemma varies1_configureExposedHeaders: "varies1 (configureExposedHeaders options) = []"
  using configureExposedHeaders_cases [of options] by auto

lemma configureAllowedHeaders_eq:
  "configureAllowedHeaders options req =
     (let a = js_or (get options ''allowedHeaders'') (get options ''headers'') in
      if \<not> truthy a then
        Directives [Directive ''Vary'' (JStr ''Access-Control-Request-Headers'')] #
        (case req_headers req ''access-control-request-headers'' of
           None \<Rightarrow> []
         | Some s \<Rightarrow> if s = [] then []
                     else [Directives [Directive ''Access-Control-Allow-Headers'' (JStr s)]])
      else if truthy (js_and (join_if_array a) (length_prop (join_if_array a)))
           then [Directives [Directive ''Access-Control-Allow-Headers'' (join_if_array a)]]
      else [])"
  by (auto simp: configureAllowedHeaders_def Let_def header_def js_and_def split: option.splits)

section \<open>Which header each function sets\<close>

lemma keys_configureOrigin:
  "fst ` set (sets (configureOrigin options req)) \<subseteq> {''Access-Control-Allow-Origin''}"
  by (auto simp: sets_configureOrigin Let_def split: if_splits)

lemma keys_configureCredentials:
  "fst ` set (sets1 (configureCredentials options)) \<subseteq> {''Access-Control-Allow-Credentials''}"
  by (auto simp: sets1_configureCredentials split: if_splits)

lemma keys_configureMaxAge:
  "fst ` set (sets1 (configureMaxAge options)) \<subseteq> {''Access-Control-Max-Age''}"
  by (auto simp: sets1_configureMaxAge Let_def split: if_splits)

lemma keys_configureExposedHeaders:
  "fst ` set (sets1 (configureExposedHeaders options)) \<subseteq> {''Access-Control-Expose-Headers''}"
  using sets1_configureExposedHeaders [of options] by auto

lemma keys_configureAllowedHeaders:
  "fst ` set (sets (configureAllowedHeaders options req)) \<subseteq> {''Access-Control-Allow-Headers''}"
  by (auto simp: configureAllowedHeaders_eq Let_def split: if_splits option.splits)

lemma keys_methods:
  "fst ` set (sets1 (Directive ''Access-Control-Allow-Methods'' v)) \<subseteq> {''Access-Control-Allow-Methods''}"
  by auto

lemma preflight_headers_eq:
  "preflight_headers options req =
     (if nullish (get options ''methods'') then Inl TypeError else Inr (preflight_plan options req))"
  by (simp add: preflight_headers_def configureMethods_def preflight_plan_def Let_def)

lemma sets_preflight_plan:
  "sets (preflight_plan options req) =
     sets (configureOrigin options req) @ sets1 (configureCredentials options) @
     sets1 (Directive ''Access-Control-Allow-Methods'' (join_if_array (get options ''methods''))) @
     sets (configureAllowedHeaders options req) @ sets1 (configureMaxAge options) @
     sets1 (configureExposedHeaders options)"
  by (simp add: preflight_plan_def)

lemma varies_preflight_plan:
  "varies (preflight_plan options req) =
     varies (configureOrigin options req) @ varies (configureAllowedHeaders options req)"
  by (simp add: preflight_plan_def varies1_configureCredentials varies1_configureMaxAge
        varies1_configureExposedHeaders)

lemma sets_actual_headers:
  "sets (actual_headers options req) =
     sets (configureOrigin options req) @ sets1 (configureCredentials options) @
     sets1 (configureExposedHeaders options)"
  by (simp add: actual_headers_def)

lemma varies_actual_headers:
  "varies (actual_headers options req) = varies (configureOrigin options req)"
  by (simp add: actual_headers_def varies1_configureCredentials varies1_configureExposedHeaders)

lemma lookup_other_key:
  "fst ` set xs \<subseteq> {k'} \<Longrightarrow> k \<noteq> k' \<Longrightarrow> map_of (rev xs) k = None"
  by (auto simp: map_of_eq_None_iff)

lemma lookup_rev_append:
  "map_of (rev (xs @ ys)) k =
     (case map_of (rev ys) k of None \<Rightarrow> map_of (rev xs) k | Some v \<Rightarrow> Some v)"
  by (simp add: map_add_def)

lemmas other_keys =
  lookup_other_key [OF keys_configureOrigin]
  lookup_other_key [OF keys_configureCredentials]
  lookup_other_key [OF keys_methods]
  lookup_other_key [OF keys_configureAllowedHeaders]
  lookup_other_key [OF keys_configureMaxAge]
  lookup_other_key [OF keys_configureExposedHeaders]

lemma preflight_plan_origin:
  "map_of (rev (sets (preflight_plan options req))) ''Access-Control-Allow-Origin'' =
   map_of (rev (sets (configureOrigin options req))) ''Access-Control-Allow-Origin''"
  unfolding sets_preflight_plan lookup_rev_append by (simp add: other_keys split: option.splits)

lemma preflight_plan_allowed:
  "map_of (rev (sets (preflight_plan options req))) ''Access-Control-Allow-Headers'' =
   map_of (rev (sets (configureAllowedHeaders options req))) ''Access-Control-Allow-Headers''"
  unfolding sets_preflight_plan lookup_rev_append by (simp add: other_keys split: option.splits)

lemma preflight_plan_maxAge:
  "map_of (rev (sets (preflight_plan options req))) ''Access-Control-Max-Age'' =
   map_of (rev (sets1 (configureMaxAge options))) ''Access-Control-Max-Age''"
  unfolding sets_preflight_plan lookup_rev_append by (simp add: other_keys split: option.splits)

lemma actual_headers_origin:
  "map_of (rev (sets (actual_headers options req))) ''Access-Control-Allow-Origin'' =
   map_of (rev (sets (configureOrigin options req))) ''Access-Control-Allow-Origin''"
  unfolding sets_actual_headers lookup_rev_append by (simp add: other_keys split: option.splits)

lemma cors_preflight:
  assumes "req_method req = Some m" and "toUpperCase m = ''OPTIONS''"
    and "\<not> nullish (get options ''methods'')"
  shows "cors options req w =
     Inr (if truthy (get options ''preflightContinue'')
          then call_next JUndefined (w\<lparr>res := applyHeaders (preflight_plan options req) (res w)\<rparr>)
          else w\<lparr>res := end_response
                  (setHeader
                     (set_statusCode (applyHeaders (preflight_plan options req) (res w))
                        (get options ''optionsSuccessStatus''))
                     ''Content-Length'' (JStr ''0''))\<rparr>)"
  using assms by (simp add: cors_def is_preflight_iff preflight_headers_eq Let_def)

section \<open>What \<open>cors\<close> returns\<close>

lemma cors_cases:
  "cors options req w =
     (if strict_eq_string (method_upper req) ''OPTIONS'' then
        if nullish (get options ''methods'') then Inl TypeError
        else if truthy (get options ''preflightContinue'')
          then Inr (call_next JUndefined (w\<lparr>res := applyHeaders (preflight_plan options req) (res w)\<rparr>))
          else Inr (w\<lparr>res := end_response
                  (setHeader
                     (set_statusCode (applyHeaders (preflight_plan options req) (res w))
                        (get options ''optionsSuccessStatus''))
                     ''Content-Length'' (JStr ''0''))\<rparr>)
      else Inr (call_next JUndefined (w\<lparr>res := applyHeaders (actual_headers options req) (res w)\<rparr>)))"
  by (simp add: cors_def preflight_headers_eq Let_def)

lemma cors_returns:
  "\<not> nullish (get options ''methods'') \<Longrightarrow> \<exists>w'. cors options req w = Inr w'"
  by (simp add: cors_cases)

text \<open>
  The one place where \<open>cors\<close> throws: on the preflight path \<open>configureMethods\<close> reads
  \<open>methods.join\<close>, a \<open>TypeError\<close> when \<open>methods\<close> is \<open>undefined\<close> or \<open>null\<close>; nothing
  has been written to the response at that point.
\<close>

lemma cors_throws:
  assumes "req_method req = Some m" and "toUpperCase m = ''OPTIONS''"
    and "nullish (get options ''methods'')"
  shows "cors options req w = Inl TypeError"
proof -
  have "strict_eq_string (method_upper req) ''OPTIONS''"
    using assms(1,2) by (auto simp: is_preflight_iff)
  with assms(3) show ?thesis by (simp add: cors_cases)
qed

lemma lookup_after:
  "res_headers (applyHeaders hs r) k =
     (case map_of (rev (sets hs)) k of None \<Rightarrow> res_headers r k | Some v \<Rightarrow> Some v)"
  by (simp add: applyHeaders_closed map_add_def)

lemma vary_after: "res_vary (applyHeaders hs r) = res_vary r @ varies hs"
  by (simp add: applyHeaders_closed)

lemma cors_origin_header:
  assumes "cors options req w = Inr w'"
  shows "res_headers (res w') ''Access-Control-Allow-Origin'' =
     (case map_of (rev (sets (configureOrigin options req))) ''Access-Control-Allow-Origin'' of
        None \<Rightarrow> res_headers (res w) ''Access-Control-Allow-Origin''
      | Some v \<Rightarrow> Some v)"
  using assms
  by (auto simp: cors_cases call_next_def end_response_def setHeader_def set_statusCode_def
        lookup_after preflight_plan_origin actual_headers_origin split: if_splits)

lemma cors_vary:
  assumes "cors options req w = Inr w'"
  shows "res_vary (res w') =
     res_vary (res w) @ varies (configureOrigin options req) @
     (if strict_eq_string (method_upper req) ''OPTIONS''
      then varies (configureAllowedHeaders options req) else [])"
  using assms
  by (auto simp: cors_cases call_next_def end_response_def setHeader_def set_statusCode_def
        vary_after varies_preflight_plan varies_actual_headers split: if_splits)

lemma cors_allowed_header:
  assumes "strict_eq_string (method_upper req) ''OPTIONS''" and "cors options req w = Inr w'"
  shows "res_headers (res w') ''Access-Control-Allow-Headers'' =
     (case map_of (rev (sets (configureAllowedHeaders options req))) ''Access-Control-Allow-Headers'' of
        None \<Rightarrow> res_headers (res w) ''Access-Control-Allow-Headers''
      | Some v \<Rightarrow> Some v)"
  using assms
  by (auto simp: cors_cases call_next_def end_response_def setHeader_def set_statusCode_def
        lookup_after preflight_plan_allowed split: if_splits)

lemma cors_maxAge_header:
  assumes "strict_eq_string (method_upper req) ''OPTIONS''" and "cors options req w = Inr w'"
  shows "res_headers (res w') ''Access-Control-Max-Age'' =
     (case map_of (rev (sets1 (configureMaxAge options))) ''Access-Control-Max-Age'' of
        None \<Rightarrow> res_headers (res w) ''Access-Control-Max-Age''
      | Some v \<Rightarrow> Some v)"
  using assms
  by (auto simp: cors_cases call_next_def end_response_def setHeader_def set_statusCode_def
        lookup_after preflight_plan_maxAge split: if_splits)

lemma varies_configureAllowedHeaders:
  "varies (configureAllowedHeaders options req) =
     (if truthy (js_or (get options ''allowedHeaders'') (get options ''headers'')) then []
      else [JStr ''Access-Control-Request-Headers''])"
  by (auto simp: configureAllowedHeaders_eq Let_def split: option.splits)

lemma number_toString_zero: "number_toString 0 = ''0''"
  by code_simp

lemma toString_zero: "toString (JNum 0) = ''0''"
  by (simp add: number_toString_zero)

lemma cors_preflight_allowed:
  assumes "req_method req = Some m" and "toUpperCase m = ''OPTIONS''"
    and "\<not> nullish (get options ''methods'')"
  shows "\<exists>w'. cors options req w = Inr w' \<and>
     res_headers (res w') ''Access-Control-Allow-Headers'' =
       (case map_of (rev (sets (configureAllowedHeaders options req)))
               ''Access-Control-Allow-Headers'' of
          None \<Rightarrow> res_headers (res w) ''Access-Control-Allow-Headers''
        | Some v \<Rightarrow> Some v) \<and>
     res_vary (res w') =
       res_vary (res w) @ varies (configureOrigin options req) @
       varies (configureAllowedHeaders options req)"
proof -
  from assms(3) obtain w' where ret: "cors options req w = Inr w'"
    using cors_returns by blast
  have opt: "strict_eq_string (method_upper req) ''OPTIONS''"
    using assms(1,2) by (auto simp: is_preflight_iff)
  show ?thesis
    using ret cors_allowed_header [OF opt ret] cors_vary [OF ret] opt by simp
qed

lemma isOriginAllowed_loop_iff:
  "isOriginAllowed_loop origin xs \<longleftrightarrow> (\<exists>x \<in> set xs. isOriginAllowed origin x)"
  by (induction xs) auto

lemma configureOrigin_reflect:
  assumes "truthy (get options ''origin'')" and "\<not> isString (get options ''origin'')"
  shows "configureOrigin options req =
     [Directives [Directive ''Access-Control-Allow-Origin''
                    (if isOriginAllowed (header req ''origin'') (get options ''origin'')
                     then header req ''origin'' else JBool False)],
      Directives [Directive ''Vary'' (JStr ''Origin'')]]"
  using assms by (auto simp: configureOrigin_def Let_def strict_eq_string_iff)

lemma cors_reflect:
  assumes "truthy (get options ''origin'')" and "\<not> isString (get options ''origin'')"
    and "\<not> nullish (get options ''methods'')"
  shows "\<exists>w' fields. cors options req w = Inr w' \<and>
     res_headers (res w') ''Access-Control-Allow-Origin'' =
       (if isOriginAllowed (header req ''origin'') (get options ''origin'') \<and>
           truthy (header req ''origin'')
        then Some (header req ''origin'')
        else res_headers (res w) ''Access-Control-Allow-Origin'') \<and>
     res_vary (res w') = res_vary (res w) @ JStr ''Origin'' # fields"
proof -
  from assms(3) obtain w' where ret: "cors options req w = Inr w'"
    using cors_returns by blast
  have star: "get options ''origin'' \<noteq> JStr ''*''"
    using assms(2) by auto
  have h: "res_headers (res w') ''Access-Control-Allow-Origin'' =
       (if isOriginAllowed (header req ''origin'') (get options ''origin'') \<and>
           truthy (header req ''origin'')
        then Some (header req ''origin'')
        else res_headers (res w) ''Access-Control-Allow-Origin'')"
    unfolding cors_origin_header [OF ret] sets_configureOrigin Let_def
    using assms(1,2) star by simp
  have v: "res_vary (res w') = res_vary (res w) @ JStr ''Origin'' #
     (if strict_eq_string (method_upper req) ''OPTIONS''
      then varies (configureAllowedHeaders options req) else [])"
    unfolding cors_vary [OF ret] varies_configureOrigin Let_def
    using assms(1) star by simp
  from ret h v show ?thesis by blast
qed

lemma cors_GET:
  "cors options \<lparr>req_method = Some ''GET'', req_headers = hs\<rparr> w =
     Inr (call_next JUndefined
            (w\<lparr>res := applyHeaders
                         (actual_headers options \<lparr>req_method = Some ''GET'', req_headers = hs\<rparr>)
                         (res w)\<rparr>))"
  by (simp add: cors_def method_upper_def toUpperCase_def Let_def)

lemma originCallback_None:
  "originCallback corsOptions = None \<longleftrightarrow> \<not> truthy (get corsOptions ''origin'')"
  by (cases "get corsOptions ''origin''") (simp_all add: originCallback_def)

lemma upper_options: "toUpperCase ''options'' = ''OPTIONS''"
  by code_simp

section \<open>The two paths of the handler\<close>

text \<open>
  Claim C1. Let the method of the request, in upper case, be \<open>OPTIONS\<close>, and let the
  \<open>methods\<close> option be a value (not \<open>undefined\<close> or \<open>null\<close>, on which
  \<open>configureMethods\<close> throws before anything is written). Then the array of header
  directives is built, and
  \<^item> if \<open>preflightContinue\<close> is false (or any falsy value), \<open>cors\<close> returns with the
    status code of the response equal to the \<open>optionsSuccessStatus\<close> option, the header
    \<open>Content-Length\<close> equal to \<open>"0"\<close>, the response ended, and no call of the
    continuation;
  \<^item> if \<open>preflightContinue\<close> is true (or any truthy value), \<open>cors\<close> returns with exactly
    one more call of the continuation, without an argument, and the response handed to
    it is the response with the directives applied.
\<close>

theorem preflight_dispatch:
  assumes "req_method req = Some m" and "toUpperCase m = ''OPTIONS''"
    and "\<not> nullish (get options ''methods'')"
  shows "\<exists>headers. preflight_headers options req = Inr headers \<and>
     (\<not> truthy (get options ''preflightContinue'') \<longrightarrow>
        (\<exists>w'. cors options req w = Inr w' \<and>
              res_statusCode (res w') = get options ''optionsSuccessStatus'' \<and>
              res_headers (res w') ''Content-Length'' = Some (JStr ''0'') \<and>
              res_ended (res w') \<and>
              next_calls w' = next_calls w)) \<and>
     (truthy (get options ''preflightContinue'') \<longrightarrow>
        (\<exists>w'. cors options req w = Inr w' \<and>
              res w' = applyHeaders headers (res w) \<and>
              next_calls w' = next_calls w @ [(JUndefined, applyHeaders headers (res w))]))"
proof -
  have plan: "preflight_headers options req = Inr (preflight_plan options req)"
    using assms(3) by (simp add: preflight_headers_eq)
  have run: "cors options req w =
     Inr (if truthy (get options ''preflightContinue'')
          then call_next JUndefined (w\<lparr>res := applyHeaders (preflight_plan options req) (res w)\<rparr>)
          else w\<lparr>res := end_response
                  (setHeader
                     (set_statusCode (applyHeaders (preflight_plan options req) (res w))
                        (get options ''optionsSuccessStatus''))
                     ''Content-Length'' (JStr ''0''))\<rparr>)"
    using assms by (rule cors_preflight)
  show ?thesis
    unfolding plan run
    by (simp add: call_next_def end_response_def setHeader_def set_statusCode_def)
qed

theorem preflight_dispatch_witness:
  "toUpperCase ''options'' = ''OPTIONS'' \<and>
   \<not> nullish (get defaults ''methods'') \<and>
   \<not> truthy (get defaults ''preflightContinue'') \<and>
   (\<exists>w'. cors defaults \<lparr>req_method = Some ''options'', req_headers = Map.empty\<rparr> start = Inr w' \<and>
         res_statusCode (res w') = JNum 204 \<and>
         res_headers (res w') ''Content-Length'' = Some (JStr ''0'') \<and>
         res_ended (res w') \<and> next_calls w' = []) \<and>
   truthy (get (defaults(''preflightContinue'' \<mapsto> JBool True)) ''preflightContinue'') \<and>
   (\<exists>headers w'.
         preflight_headers (defaults(''preflightContinue'' \<mapsto> JBool True))
            \<lparr>req_method = Some ''options'', req_headers = Map.empty\<rparr> = Inr headers \<and>
         cors (defaults(''preflightContinue'' \<mapsto> JBool True))
            \<lparr>req_method = Some ''options'', req_headers = Map.empty\<rparr> start = Inr w' \<and>
         res w' = applyHeaders headers new_response \<and>
         next_calls w' = [(JUndefined, applyHeaders headers new_response)])"
  using
    preflight_dispatch [of "\<lparr>req_method = Some ''options'', req_headers = Map.empty\<rparr>"
      "''options''" defaults start]
    preflight_dispatch [of "\<lparr>req_method = Some ''options'', req_headers = Map.empty\<rparr>"
      "''options''" "defaults(''preflightContinue'' \<mapsto> JBool True)" start]
  by (simp add: upper_options get_def defaults_def start_def)


section \<open>Two runs of the handler\<close>







section \<open>The origin directive\<close>

text \<open>
  Claim C3. When the \<open>origin\<close> option is the string \<open>*\<close>, \<open>configureOrigin\<close> returns
  the one directive \<open>Access-Control-Allow-Origin: *\<close>, whatever the request (so no
  \<open>Vary\<close> directive), and \<open>cors\<close> (which returns, the \<open>methods\<close> option being a
  value) leaves the header \<open>Access-Control-Allow-Origin\<close> of the response equal to
  \<open>*\<close>; the fields it merges into \<open>Vary\<close> do not include \<open>Origin\<close>.
\<close>

theorem wildcard_origin:
  assumes "get options ''origin'' = JStr ''*''"
  shows "configureOrigin options req =
           [Directives [Directive ''Access-Control-Allow-Origin'' (JStr ''*'')]] \<and>
         (\<not> nullish (get options ''methods'') \<longrightarrow>
            (\<exists>w' fields. cors options req w = Inr w' \<and>
               res_headers (res w') ''Access-Control-Allow-Origin'' = Some (JStr ''*'') \<and>
               res_vary (res w') = res_vary (res w) @ fields \<and>
               JStr ''Origin'' \<notin> set fields))"
proof (intro conjI impI)
  show "configureOrigin options req =
          [Directives [Directive ''Access-Control-Allow-Origin'' (JStr ''*'')]]"
    using assms by (simp add: configureOrigin_def)
next
  assume "\<not> nullish (get options ''methods'')"
  then obtain w' where ret: "cors options req w = Inr w'"
    using cors_returns by blast
  have "res_headers (res w') ''Access-Control-Allow-Origin'' = Some (JStr ''*'')"
    using cors_origin_header [OF ret] assms by (simp add: sets_configureOrigin)
  moreover have "res_vary (res w') = res_vary (res w) @
     (if strict_eq_string (method_upper req) ''OPTIONS''
      then varies (configureAllowedHeaders options req) else [])"
    using cors_vary [OF ret] assms by (simp add: varies_configureOrigin)
  moreover have "JStr ''Origin'' \<notin> set (if strict_eq_string (method_upper req) ''OPTIONS''
      then varies (configureAllowedHeaders options req) else [])"
    by (simp add: varies_configureAllowedHeaders)
  ultimately show "\<exists>w' fields. cors options req w = Inr w' \<and>
               res_headers (res w') ''Access-Control-Allow-Origin'' = Some (JStr ''*'') \<and>
               res_vary (res w') = res_vary (res w) @ fields \<and>
               JStr ''Origin'' \<notin> set fields"
    using ret by blast
qed

theorem wildcard_origin_witness:
  "get defaults ''origin'' = JStr ''*'' \<and>
   \<not> nullish (get defaults ''methods'') \<and>
   configureOrigin defaults
     \<lparr>req_method = Some ''GET'', req_headers = [''origin'' \<mapsto> ''http://a.com'']\<rparr> =
     [Directives [Directive ''Access-Control-Allow-Origin'' (JStr ''*'')]] \<and>
   (\<exists>w' fields.
      cors defaults \<lparr>req_method = Some ''GET'', req_headers = [''origin'' \<mapsto> ''http://a.com'']\<rparr>
        start = Inr w' \<and>
      res_headers (res w') ''Access-Control-Allow-Origin'' = Some (JStr ''*'') \<and>
      res_vary (res w') = fields \<and> JStr ''Origin'' \<notin> set fields)"
  using wildcard_origin
    [of defaults "\<lparr>req_method = Some ''GET'', req_headers = [''origin'' \<mapsto> ''http://a.com'']\<rparr>"
        start]
  by (simp add: get_def defaults_def start_def new_response_def)

section \<open>The max-age directive\<close>

text \<open>
  Claim C5. \<open>configureMaxAge\<close> returns the directive \<open>Access-Control-Max-Age\<close>, with the
  string form of the \<open>maxAge\<close> option as its value, exactly when \<open>maxAge\<close> is a number,
  or is truthy with a string form that is not empty; otherwise it returns \<open>null\<close>. For
  the number 0 the value is \<open>"0"\<close>. On a preflight request (the \<open>methods\<close> option being
  a value) \<open>cors\<close> returns with the header set to that value when the directive is
  returned, and untouched otherwise.
\<close>

theorem maxAge_header:
  "configureMaxAge options =
     (if typeof_number (get options ''maxAge'') \<or>
         (truthy (get options ''maxAge'') \<and> toString (get options ''maxAge'') \<noteq> [])
      then Directive ''Access-Control-Max-Age'' (JStr (toString (get options ''maxAge'')))
      else DNull) \<and>
   (get options ''maxAge'' = JNum 0 \<longrightarrow>
      configureMaxAge options = Directive ''Access-Control-Max-Age'' (JStr ''0'')) \<and>
   (req_method req = Some m \<and> toUpperCase m = ''OPTIONS'' \<and>
    \<not> nullish (get options ''methods'') \<longrightarrow>
      (\<exists>w'. cors options req w = Inr w' \<and>
         res_headers (res w') ''Access-Control-Max-Age'' =
           (if typeof_number (get options ''maxAge'') \<or>
               (truthy (get options ''maxAge'') \<and> toString (get options ''maxAge'') \<noteq> [])
            then Some (JStr (toString (get options ''maxAge'')))
            else res_headers (res w) ''Access-Control-Max-Age'') \<and>
         (get options ''maxAge'' = JNum 0 \<longrightarrow>
            res_headers (res w') ''Access-Control-Max-Age'' = Some (JStr ''0''))))"
proof -
  let ?m = "get options ''maxAge''"
  have num: "typeof_number ?m \<Longrightarrow> toString ?m \<noteq> []"
    by (cases ?m) (simp_all add: number_toString_nonempty)
  have cond: "((typeof_number ?m \<or> truthy ?m) \<and> toString ?m \<noteq> []) =
              (typeof_number ?m \<or> (truthy ?m \<and> toString ?m \<noteq> []))"
    using num by blast
  have dir: "configureMaxAge options =
     (if typeof_number ?m \<or> (truthy ?m \<and> toString ?m \<noteq> [])
      then Directive ''Access-Control-Max-Age'' (JStr (toString ?m)) else DNull)"
    unfolding configureMaxAge_eq Let_def cond ..
  have zero: "?m = JNum 0 \<Longrightarrow>
      configureMaxAge options = Directive ''Access-Control-Max-Age'' (JStr ''0'')"
    unfolding dir by (simp add: toString_zero del: toString.simps)
  have run: "\<exists>w'. cors options req w = Inr w' \<and>
         res_headers (res w') ''Access-Control-Max-Age'' =
           (if typeof_number ?m \<or> (truthy ?m \<and> toString ?m \<noteq> [])
            then Some (JStr (toString ?m))
            else res_headers (res w) ''Access-Control-Max-Age'') \<and>
         (?m = JNum 0 \<longrightarrow> res_headers (res w') ''Access-Control-Max-Age'' = Some (JStr ''0''))"
    if pre: "req_method req = Some m \<and> toUpperCase m = ''OPTIONS'' \<and>
             \<not> nullish (get options ''methods'')"
  proof -
    from pre obtain w' where ret: "cors options req w = Inr w'"
      using cors_returns by blast
    have opt: "strict_eq_string (method_upper req) ''OPTIONS''"
      using pre by (auto simp: is_preflight_iff)
    have hdr: "res_headers (res w') ''Access-Control-Max-Age'' =
           (if typeof_number ?m \<or> (truthy ?m \<and> toString ?m \<noteq> [])
            then Some (JStr (toString ?m))
            else res_headers (res w) ''Access-Control-Max-Age'')"
      using cors_maxAge_header [OF opt ret] num by (auto simp: dir)
    have "?m = JNum 0 \<Longrightarrow> res_headers (res w') ''Access-Control-Max-Age'' = Some (JStr ''0'')"
      unfolding hdr by (simp add: toString_zero del: toString.simps)
    with ret hdr show ?thesis by blast
  qed
  from dir zero run show ?thesis by blast
qed

theorem maxAge_header_witness:
  "get (defaults(''maxAge'' \<mapsto> JNum 0)) ''maxAge'' = JNum 0 \<and>
   toUpperCase ''options'' = ''OPTIONS'' \<and>
   \<not> nullish (get (defaults(''maxAge'' \<mapsto> JNum 0)) ''methods'') \<and>
   configureMaxAge (defaults(''maxAge'' \<mapsto> JNum 0)) =
     Directive ''Access-Control-Max-Age'' (JStr ''0'') \<and>
   (\<exists>w'. cors (defaults(''maxAge'' \<mapsto> JNum 0))
            \<lparr>req_method = Some ''options'', req_headers = Map.empty\<rparr> start = Inr w' \<and>
         res_headers (res w') ''Access-Control-Max-Age'' = Some (JStr ''0'')) \<and>
   configureMaxAge (defaults(''maxAge'' \<mapsto> JArr [])) = DNull"
  using maxAge_header
    [of "defaults(''maxAge'' \<mapsto> JNum 0)"
        "\<lparr>req_method = Some ''options'', req_headers = Map.empty\<rparr>" "''options''" start]
    maxAge_header
    [of "defaults(''maxAge'' \<mapsto> JArr [])"
        "\<lparr>req_method = Some ''options'', req_headers = Map.empty\<rparr>" "''options''" start]
  by (simp add: get_def defaults_def upper_options number_toString_zero)

section \<open>The allowed-headers directive\<close>

text \<open>
  Claim C6. On a preflight request (the \<open>methods\<close> option being a value):
  \<^item> when neither \<open>allowedHeaders\<close> nor the older \<open>headers\<close> option holds a truthy
    value and the request carries a non-empty \<open>Access-Control-Request-Headers\<close> header,
    \<open>configureAllowedHeaders\<close> returns the \<open>Vary: Access-Control-Request-Headers\<close>
    directive and \<open>Access-Control-Allow-Headers\<close> with the request's value, unchanged;
    \<open>cors\<close> returns with that header set and the field merged into \<open>Vary\<close>;
  \<^item> when the allow-list is an array, its elements are joined with commas; the directive
    is returned and the header set when the joined string is not empty, and nothing is
    returned, the header staying as it was, when it is empty;
  \<^item> when the allow-list is a non-empty string, it is the value of the header.
\<close>

theorem allowed_headers_directive:
  assumes "req_method req = Some m" and "toUpperCase m = ''OPTIONS''"
    and "\<not> nullish (get options ''methods'')"
  shows
    "(\<not> truthy (get options ''allowedHeaders'') \<and> \<not> truthy (get options ''headers'') \<and>
      req_headers req ''access-control-request-headers'' = Some v \<and> v \<noteq> [] \<longrightarrow>
        configureAllowedHeaders options req =
          [Directives [Directive ''Vary'' (JStr ''Access-Control-Request-Headers'')],
           Directives [Directive ''Access-Control-Allow-Headers'' (JStr v)]] \<and>
        (\<exists>w'. cors options req w = Inr w' \<and>
           res_headers (res w') ''Access-Control-Allow-Headers'' = Some (JStr v) \<and>
           JStr ''Access-Control-Request-Headers'' \<in> set (res_vary (res w')))) \<and>
     (js_or (get options ''allowedHeaders'') (get options ''headers'') = JArr xs \<longrightarrow>
        configureAllowedHeaders options req =
          (if join xs = [] then []
           else [Directives [Directive ''Access-Control-Allow-Headers'' (JStr (join xs))]]) \<and>
        (\<exists>w'. cors options req w = Inr w' \<and>
           res_headers (res w') ''Access-Control-Allow-Headers'' =
             (if join xs = [] then res_headers (res w) ''Access-Control-Allow-Headers''
              else Some (JStr (join xs))))) \<and>
     (js_or (get options ''allowedHeaders'') (get options ''headers'') = JStr s \<and> s \<noteq> [] \<longrightarrow>
        configureAllowedHeaders options req =
          [Directives [Directive ''Access-Control-Allow-Headers'' (JStr s)]] \<and>
        (\<exists>w'. cors options req w = Inr w' \<and>
           res_headers (res w') ''Access-Control-Allow-Headers'' = Some (JStr s)))"
proof (intro conjI impI)
  assume a: "\<not> truthy (get options ''allowedHeaders'') \<and> \<not> truthy (get options ''headers'') \<and>
      req_headers req ''access-control-request-headers'' = Some v \<and> v \<noteq> []"
  then show d: "configureAllowedHeaders options req =
          [Directives [Directive ''Vary'' (JStr ''Access-Control-Request-Headers'')],
           Directives [Directive ''Access-Control-Allow-Headers'' (JStr v)]]"
    by (simp add: configureAllowedHeaders_eq js_or_def)
  show "\<exists>w'. cors options req w = Inr w' \<and>
           res_headers (res w') ''Access-Control-Allow-Headers'' = Some (JStr v) \<and>
           JStr ''Access-Control-Request-Headers'' \<in> set (res_vary (res w'))"
    using cors_preflight_allowed [OF assms, of w] a unfolding d by auto
next
  assume a: "js_or (get options ''allowedHeaders'') (get options ''headers'') = JArr xs"
  then show d: "configureAllowedHeaders options req =
          (if join xs = [] then []
           else [Directives [Directive ''Access-Control-Allow-Headers'' (JStr (join xs))]])"
    by (simp add: configureAllowedHeaders_eq js_and_def)
  show "\<exists>w'. cors options req w = Inr w' \<and>
           res_headers (res w') ''Access-Control-Allow-Headers'' =
             (if join xs = [] then res_headers (res w) ''Access-Control-Allow-Headers''
              else Some (JStr (join xs)))"
    using cors_preflight_allowed [OF assms, of w] unfolding d by auto
next
  assume a: "js_or (get options ''allowedHeaders'') (get options ''headers'') = JStr s \<and> s \<noteq> []"
  then show d: "configureAllowedHeaders options req =
          [Directives [Directive ''Access-Control-Allow-Headers'' (JStr s)]]"
    by (simp add: configureAllowedHeaders_eq js_and_def)
  show "\<exists>w'. cors options req w = Inr w' \<and>
           res_headers (res w') ''Access-Control-Allow-Headers'' = Some (JStr s)"
    using cors_preflight_allowed [OF assms, of w] a unfolding d by auto
qed

theorem allowed_headers_directive_witness:
  "toUpperCase ''options'' = ''OPTIONS'' \<and>
   \<not> nullish (get defaults ''methods'') \<and>
   \<not> truthy (get defaults ''allowedHeaders'') \<and> \<not> truthy (get defaults ''headers'') \<and>
   configureAllowedHeaders defaults
     \<lparr>req_method = Some ''options'',
      req_headers = [''access-control-request-headers'' \<mapsto> ''X-Foo,X-Bar'']\<rparr> =
     [Directives [Directive ''Vary'' (JStr ''Access-Control-Request-Headers'')],
      Directives [Directive ''Access-Control-Allow-Headers'' (JStr ''X-Foo,X-Bar'')]] \<and>
   (\<exists>w'. cors defaults
            \<lparr>req_method = Some ''options'',
             req_headers = [''access-control-request-headers'' \<mapsto> ''X-Foo,X-Bar'']\<rparr> start =
          Inr w' \<and>
          res_headers (res w') ''Access-Control-Allow-Headers'' = Some (JStr ''X-Foo,X-Bar'') \<and>
          JStr ''Access-Control-Request-Headers'' \<in> set (res_vary (res w'))) \<and>
   (\<exists>w'. cors (defaults(''allowedHeaders'' \<mapsto> JArr [JStr ''X-Foo'', JStr ''X-Bar'']))
            \<lparr>req_method = Some ''options'',
             req_headers = [''access-control-request-headers'' \<mapsto> ''X-Baz'']\<rparr> start =
          Inr w' \<and>
          res_headers (res w') ''Access-Control-Allow-Headers'' = Some (JStr ''X-Foo,X-Bar'')) \<and>
   (\<exists>w'. cors (defaults(''allowedHeaders'' \<mapsto> JArr []))
            \<lparr>req_method = Some ''options'',
             req_headers = [''access-control-request-headers'' \<mapsto> ''X-Baz'']\<rparr> start =
          Inr w' \<and>
          res_headers (res w') ''Access-Control-Allow-Headers'' = None) \<and>
   (\<exists>w'. cors (defaults(''allowedHeaders'' \<mapsto> JStr ''X-Foo''))
            \<lparr>req_method = Some ''options'',
             req_headers = [''access-control-request-headers'' \<mapsto> ''X-Baz'']\<rparr> start =
          Inr w' \<and>
          res_headers (res w') ''Access-Control-Allow-Headers'' = Some (JStr ''X-Foo''))"
  using
    allowed_headers_directive
      [of "\<lparr>req_method = Some ''options'',
            req_headers = [''access-control-request-headers'' \<mapsto> ''X-Foo,X-Bar'']\<rparr>"
          "''options''" defaults "''X-Foo,X-Bar''" start]
    allowed_headers_directive
      [of "\<lparr>req_method = Some ''options'',
            req_headers = [''access-control-request-headers'' \<mapsto> ''X-Baz'']\<rparr>"
          "''options''" "defaults(''allowedHeaders'' \<mapsto> JArr [JStr ''X-Foo'', JStr ''X-Bar''])"
          _ start "[JStr ''X-Foo'', JStr ''X-Bar'']"]
    allowed_headers_directive
      [of "\<lparr>req_method = Some ''options'',
            req_headers = [''access-control-request-headers'' \<mapsto> ''X-Baz'']\<rparr>"
          "''options''" "defaults(''allowedHeaders'' \<mapsto> JArr [])" _ start "[]"]
    allowed_headers_directive
      [of "\<lparr>req_method = Some ''options'',
            req_headers = [''access-control-request-headers'' \<mapsto> ''X-Baz'']\<rparr>"
          "''options''" "defaults(''allowedHeaders'' \<mapsto> JStr ''X-Foo'')" _ start _ "''X-Foo''"]
  by (simp add: get_def defaults_def upper_options js_or_def start_def new_response_def)

text \<open>
  Claim C8. The allow-list is \<open>options.allowedHeaders || options.headers\<close>: a truthy
  \<open>allowedHeaders\<close> is used; otherwise a truthy \<open>headers\<close> is used, and then no \<open>Vary\<close>
  directive is returned and the request's \<open>Access-Control-Request-Headers\<close> header is
  not read (\<open>cors\<close> merges no such field into \<open>Vary\<close>, and the header comes from the
  \<open>headers\<close> option); only when both are falsy is the request's header reflected,
  after the \<open>Vary\<close> directive.
\<close>

theorem legacy_headers_fallback:
  "(truthy (get options ''allowedHeaders'') \<longrightarrow>
      configureAllowedHeaders options req =
        (let a = join_if_array (get options ''allowedHeaders'') in
         if truthy (js_and a (length_prop a))
         then [Directives [Directive ''Access-Control-Allow-Headers'' a]] else [])) \<and>
   (\<not> truthy (get options ''allowedHeaders'') \<and> truthy (get options ''headers'') \<longrightarrow>
      configureAllowedHeaders options req =
        (let a = join_if_array (get options ''headers'') in
         if truthy (js_and a (length_prop a))
         then [Directives [Directive ''Access-Control-Allow-Headers'' a]] else []) \<and>
      varies (configureAllowedHeaders options req) = [] \<and>
      (req_method req = Some m \<and> toUpperCase m = ''OPTIONS'' \<and>
       \<not> nullish (get options ''methods'') \<longrightarrow>
         (\<exists>w'. cors options req w = Inr w' \<and>
            res_vary (res w') = res_vary (res w) @ varies (configureOrigin options req) \<and>
            JStr ''Access-Control-Request-Headers'' \<notin> set (varies (configureOrigin options req)) \<and>
            res_headers (res w') ''Access-Control-Allow-Headers'' =
              (let a = join_if_array (get options ''headers'') in
               if truthy (js_and a (length_prop a)) then Some a
               else res_headers (res w) ''Access-Control-Allow-Headers'')))) \<and>
   (\<not> truthy (get options ''allowedHeaders'') \<and> \<not> truthy (get options ''headers'') \<longrightarrow>
      configureAllowedHeaders options req =
        Directives [Directive ''Vary'' (JStr ''Access-Control-Request-Headers'')] #
        (let a = header req ''access-control-request-headers'' in
         if truthy (js_and a (length_prop a))
         then [Directives [Directive ''Access-Control-Allow-Headers'' a]] else []))"
proof (intro conjI impI)
  assume "truthy (get options ''allowedHeaders'')"
  then show "configureAllowedHeaders options req =
        (let a = join_if_array (get options ''allowedHeaders'') in
         if truthy (js_and a (length_prop a))
         then [Directives [Directive ''Access-Control-Allow-Headers'' a]] else [])"
    by (simp add: configureAllowedHeaders_def js_or_def Let_def)
next
  assume a: "\<not> truthy (get options ''allowedHeaders'') \<and> truthy (get options ''headers'')"
  then show d: "configureAllowedHeaders options req =
        (let a = join_if_array (get options ''headers'') in
         if truthy (js_and a (length_prop a))
         then [Directives [Directive ''Access-Control-Allow-Headers'' a]] else [])"
    by (simp add: configureAllowedHeaders_def js_or_def Let_def)
  from a show v: "varies (configureAllowedHeaders options req) = []"
    by (simp add: varies_configureAllowedHeaders js_or_def)
  assume pre: "req_method req = Some m \<and> toUpperCase m = ''OPTIONS'' \<and>
       \<not> nullish (get options ''methods'')"
  then obtain w' where w': "cors options req w = Inr w'"
    "res_headers (res w') ''Access-Control-Allow-Headers'' =
       (case map_of (rev (sets (configureAllowedHeaders options req)))
               ''Access-Control-Allow-Headers'' of
          None \<Rightarrow> res_headers (res w) ''Access-Control-Allow-Headers''
        | Some v \<Rightarrow> Some v)"
    "res_vary (res w') =
       res_vary (res w) @ varies (configureOrigin options req) @
       varies (configureAllowedHeaders options req)"
    using cors_preflight_allowed [of req m options w] by (elim conjE) blast
  have o: "JStr ''Access-Control-Request-Headers'' \<notin> set (varies (configureOrigin options req))"
    by (simp add: varies_configureOrigin Let_def)
  have t: "truthy (js_and x (length_prop x)) \<Longrightarrow> truthy x" for x
    by (simp add: js_and_def split: if_splits)
  have r: "res_vary (res w') = res_vary (res w) @ varies (configureOrigin options req)"
    unfolding w'(3) v by simp
  have h: "res_headers (res w') ''Access-Control-Allow-Headers'' =
              (let a = join_if_array (get options ''headers'') in
               if truthy (js_and a (length_prop a)) then Some a
               else res_headers (res w) ''Access-Control-Allow-Headers'')"
    unfolding w'(2) d using t [of "join_if_array (get options ''headers'')"]
    by (simp add: Let_def)
  from w'(1) r o h show "\<exists>w'. cors options req w = Inr w' \<and>
            res_vary (res w') = res_vary (res w) @ varies (configureOrigin options req) \<and>
            JStr ''Access-Control-Request-Headers'' \<notin> set (varies (configureOrigin options req)) \<and>
            res_headers (res w') ''Access-Control-Allow-Headers'' =
              (let a = join_if_array (get options ''headers'') in
               if truthy (js_and a (length_prop a)) then Some a
               else res_headers (res w) ''Access-Control-Allow-Headers'')"
    by (intro exI [of _ w'] conjI)
next
  assume "\<not> truthy (get options ''allowedHeaders'') \<and> \<not> truthy (get options ''headers'')"
  then show "configureAllowedHeaders options req =
        Directives [Directive ''Vary'' (JStr ''Access-Control-Request-Headers'')] #
        (let a = header req ''access-control-request-headers'' in
         if truthy (js_and a (length_prop a))
         then [Directives [Directive ''Access-Control-Allow-Headers'' a]] else [])"
    by (simp add: configureAllowedHeaders_def js_or_def Let_def)
qed

theorem legacy_headers_fallback_witness:
  "\<not> truthy (get (defaults(''headers'' \<mapsto> JStr ''X-Legacy'')) ''allowedHeaders'') \<and>
   truthy (get (defaults(''headers'' \<mapsto> JStr ''X-Legacy'')) ''headers'') \<and>
   toUpperCase ''options'' = ''OPTIONS'' \<and>
   \<not> nullish (get (defaults(''headers'' \<mapsto> JStr ''X-Legacy'')) ''methods'') \<and>
   configureAllowedHeaders (defaults(''headers'' \<mapsto> JStr ''X-Legacy''))
     \<lparr>req_method = Some ''options'',
      req_headers = [''access-control-request-headers'' \<mapsto> ''X-Foo'']\<rparr> =
     [Directives [Directive ''Access-Control-Allow-Headers'' (JStr ''X-Legacy'')]] \<and>
   (\<exists>w'. cors (defaults(''headers'' \<mapsto> JStr ''X-Legacy''))
            \<lparr>req_method = Some ''options'',
             req_headers = [''access-control-request-headers'' \<mapsto> ''X-Foo'']\<rparr> start = Inr w' \<and>
          res_vary (res w') = [] \<and>
          res_headers (res w') ''Access-Control-Allow-Headers'' = Some (JStr ''X-Legacy'')) \<and>
   configureAllowedHeaders
     (defaults(''allowedHeaders'' \<mapsto> JStr ''X-New'', ''headers'' \<mapsto> JStr ''X-Legacy''))
     \<lparr>req_method = Some ''options'',
      req_headers = [''access-control-request-headers'' \<mapsto> ''X-Foo'']\<rparr> =
     [Directives [Directive ''Access-Control-Allow-Headers'' (JStr ''X-New'')]] \<and>
   configureAllowedHeaders defaults
     \<lparr>req_method = Some ''options'',
      req_headers = [''access-control-request-headers'' \<mapsto> ''X-Foo'']\<rparr> =
     [Directives [Directive ''Vary'' (JStr ''Access-Control-Request-Headers'')],
      Directives [Directive ''Access-Control-Allow-Headers'' (JStr ''X-Foo'')]]"
  using
    legacy_headers_fallback
      [of "defaults(''headers'' \<mapsto> JStr ''X-Legacy'')"
          "\<lparr>req_method = Some ''options'',
            req_headers = [''access-control-request-headers'' \<mapsto> ''X-Foo'']\<rparr>"
          "''options''" start]
    legacy_headers_fallback
      [of "defaults(''allowedHeaders'' \<mapsto> JStr ''X-New'', ''headers'' \<mapsto> JStr ''X-Legacy'')"
          "\<lparr>req_method = Some ''options'',
            req_headers = [''access-control-request-headers'' \<mapsto> ''X-Foo'']\<rparr>"
          "''options''" start]
    legacy_headers_fallback
      [of defaults
          "\<lparr>req_method = Some ''options'',
            req_headers = [''access-control-request-headers'' \<mapsto> ''X-Foo'']\<rparr>"
          "''options''" start]
  by (simp add: get_def defaults_def upper_options js_and_def header_def start_def
        new_response_def varies_configureOrigin)

text \<open>
  Claim C9. When neither \<open>allowedHeaders\<close> nor \<open>headers\<close> holds a truthy value, the
  first directive that \<open>configureAllowedHeaders\<close> returns is
  \<open>Vary: Access-Control-Request-Headers\<close>, whatever the request; when the request has
  no \<open>Access-Control-Request-Headers\<close> header it is the only one. On a preflight
  request \<open>cors\<close> then merges the field into \<open>Vary\<close>, and without the request header
  it leaves \<open>Access-Control-Allow-Headers\<close> as it was.
\<close>

theorem vary_request_headers_always:
  assumes "\<not> truthy (get options ''allowedHeaders'')" and "\<not> truthy (get options ''headers'')"
  shows
    "(\<exists>rest. configureAllowedHeaders options req =
        Directives [Directive ''Vary'' (JStr ''Access-Control-Request-Headers'')] # rest) \<and>
     (req_headers req ''access-control-request-headers'' = None \<longrightarrow>
        configureAllowedHeaders options req =
          [Directives [Directive ''Vary'' (JStr ''Access-Control-Request-Headers'')]]) \<and>
     (req_method req = Some m \<and> toUpperCase m = ''OPTIONS'' \<and>
      \<not> nullish (get options ''methods'') \<longrightarrow>
        (\<exists>w'. cors options req w = Inr w' \<and>
           JStr ''Access-Control-Request-Headers'' \<in> set (res_vary (res w')) \<and>
           (req_headers req ''access-control-request-headers'' = None \<longrightarrow>
              res_headers (res w') ''Access-Control-Allow-Headers'' =
              res_headers (res w) ''Access-Control-Allow-Headers'')))"
proof (intro conjI impI)
  have falsy: "\<not> truthy (js_or (get options ''allowedHeaders'') (get options ''headers''))"
    using assms by (simp add: js_or_def)
  then show "\<exists>rest. configureAllowedHeaders options req =
        Directives [Directive ''Vary'' (JStr ''Access-Control-Request-Headers'')] # rest"
    by (simp add: configureAllowedHeaders_eq)
  show none: "configureAllowedHeaders options req =
          [Directives [Directive ''Vary'' (JStr ''Access-Control-Request-Headers'')]]"
    if "req_headers req ''access-control-request-headers'' = None"
    using falsy that by (simp add: configureAllowedHeaders_eq)
  assume pre: "req_method req = Some m \<and> toUpperCase m = ''OPTIONS'' \<and>
      \<not> nullish (get options ''methods'')"
  then obtain w' where w': "cors options req w = Inr w'"
    "res_headers (res w') ''Access-Control-Allow-Headers'' =
       (case map_of (rev (sets (configureAllowedHeaders options req)))
               ''Access-Control-Allow-Headers'' of
          None \<Rightarrow> res_headers (res w) ''Access-Control-Allow-Headers''
        | Some v \<Rightarrow> Some v)"
    "res_vary (res w') =
       res_vary (res w) @ varies (configureOrigin options req) @
       varies (configureAllowedHeaders options req)"
    using cors_preflight_allowed [of req m options w] by (elim conjE) blast
  have v: "JStr ''Access-Control-Request-Headers'' \<in> set (res_vary (res w'))"
    unfolding w'(3) using falsy by (simp add: varies_configureAllowedHeaders)
  have h: "req_headers req ''access-control-request-headers'' = None \<longrightarrow>
           res_headers (res w') ''Access-Control-Allow-Headers'' =
           res_headers (res w) ''Access-Control-Allow-Headers''"
  proof
    assume n: "req_headers req ''access-control-request-headers'' = None"
    show "res_headers (res w') ''Access-Control-Allow-Headers'' =
          res_headers (res w) ''Access-Control-Allow-Headers''"
      unfolding w'(2) none [OF n] by simp
  qed
  from w'(1) v h show "\<exists>w'. cors options req w = Inr w' \<and>
           JStr ''Access-Control-Request-Headers'' \<in> set (res_vary (res w')) \<and>
           (req_headers req ''access-control-request-headers'' = None \<longrightarrow>
              res_headers (res w') ''Access-Control-Allow-Headers'' =
              res_headers (res w) ''Access-Control-Allow-Headers'')"
    by (intro exI [of _ w'] conjI)
qed

theorem vary_request_headers_always_witness:
  "\<not> truthy (get defaults ''allowedHeaders'') \<and> \<not> truthy (get defaults ''headers'') \<and>
   toUpperCase ''options'' = ''OPTIONS'' \<and> \<not> nullish (get defaults ''methods'') \<and>
   configureAllowedHeaders defaults \<lparr>req_method = Some ''options'', req_headers = Map.empty\<rparr> =
     [Directives [Directive ''Vary'' (JStr ''Access-Control-Request-Headers'')]] \<and>
   (\<exists>w'. cors defaults \<lparr>req_method = Some ''options'', req_headers = Map.empty\<rparr> start = Inr w' \<and>
          JStr ''Access-Control-Request-Headers'' \<in> set (res_vary (res w')) \<and>
          res_headers (res w') ''Access-Control-Allow-Headers'' = None)"
  using vary_request_headers_always
    [of defaults "\<lparr>req_method = Some ''options'', req_headers = Map.empty\<rparr>" "''options''" start]
  by (simp add: get_def defaults_def upper_options start_def new_response_def)

section \<open>Origin rules that are matched against the request\<close>

text \<open>
  Claim C2, as amended. Let the \<open>origin\<close> option be a regular expression or an array
  (and the \<open>methods\<close> option a value, so that \<open>cors\<close> returns).
  \<^item> \<open>isOriginAllowed\<close> on an array is false on the empty array and otherwise true as
    soon as one element allows the origin, the elements being tried in order; on a
    string it is equality with the origin; on a regular expression it is its \<open>test\<close>
    on the origin.
  \<^item> \<open>configureOrigin\<close> returns \<open>Access-Control-Allow-Origin\<close> with the request's
    \<open>Origin\<close> value when the match succeeds and \<open>false\<close> when it fails, followed by
    \<open>Vary: Origin\<close>.
  \<^item> \<open>cors\<close> merges \<open>Origin\<close> into \<open>Vary\<close> in every case. It sets
    \<open>Access-Control-Allow-Origin\<close> to the request's \<open>Origin\<close> value when the match
    succeeds and that value is not empty; when the match fails, or the request has no
    \<open>Origin\<close> header or an empty one, it leaves the header as it was.
\<close>

theorem pattern_or_list_origin:
  assumes "get options ''origin'' = JRegExp r \<or> get options ''origin'' = JArr rs"
    and "\<not> nullish (get options ''methods'')"
  shows
    "isOriginAllowed origin (JArr []) = False \<and>
     isOriginAllowed origin (JArr (x # xs)) =
       (if isOriginAllowed origin x then True else isOriginAllowed origin (JArr xs)) \<and>
     isOriginAllowed origin (JArr xs) = (\<exists>x \<in> set xs. isOriginAllowed origin x) \<and>
     isOriginAllowed origin (JStr a) = (origin = JStr a) \<and>
     isOriginAllowed origin (JRegExp r') = test r' (toString origin) \<and>
     configureOrigin options req =
       [Directives [Directive ''Access-Control-Allow-Origin''
                      (if isOriginAllowed (header req ''origin'') (get options ''origin'')
                       then header req ''origin'' else JBool False)],
        Directives [Directive ''Vary'' (JStr ''Origin'')]] \<and>
     (\<exists>w' fields. cors options req w = Inr w' \<and>
        res_vary (res w') = res_vary (res w) @ JStr ''Origin'' # fields \<and>
        (isOriginAllowed (header req ''origin'') (get options ''origin'') \<and>
         req_headers req ''origin'' = Some s \<and> s \<noteq> [] \<longrightarrow>
           res_headers (res w') ''Access-Control-Allow-Origin'' = Some (JStr s)) \<and>
        (\<not> isOriginAllowed (header req ''origin'') (get options ''origin'') \<or>
         req_headers req ''origin'' = None \<or> req_headers req ''origin'' = Some [] \<longrightarrow>
           res_headers (res w') ''Access-Control-Allow-Origin'' =
           res_headers (res w) ''Access-Control-Allow-Origin''))"
proof -
  have rule: "truthy (get options ''origin'')" "\<not> isString (get options ''origin'')"
    using assms(1) by auto
  have m: "isOriginAllowed origin (JArr []) = False \<and>
     isOriginAllowed origin (JArr (x # xs)) =
       (if isOriginAllowed origin x then True else isOriginAllowed origin (JArr xs)) \<and>
     isOriginAllowed origin (JArr xs) = (\<exists>x \<in> set xs. isOriginAllowed origin x) \<and>
     isOriginAllowed origin (JStr a) = (origin = JStr a) \<and>
     isOriginAllowed origin (JRegExp r') = test r' (toString origin)"
    by (simp add: isOriginAllowed_loop_iff strict_eq_string_iff)
  have d: "configureOrigin options req =
       [Directives [Directive ''Access-Control-Allow-Origin''
                      (if isOriginAllowed (header req ''origin'') (get options ''origin'')
                       then header req ''origin'' else JBool False)],
        Directives [Directive ''Vary'' (JStr ''Origin'')]]"
    using rule by (rule configureOrigin_reflect)
  obtain w' fields where w': "cors options req w = Inr w'"
    "res_headers (res w') ''Access-Control-Allow-Origin'' =
       (if isOriginAllowed (header req ''origin'') (get options ''origin'') \<and>
           truthy (header req ''origin'')
        then Some (header req ''origin'')
        else res_headers (res w) ''Access-Control-Allow-Origin'')"
    "res_vary (res w') = res_vary (res w) @ JStr ''Origin'' # fields"
    using cors_reflect [OF rule assms(2), of req w] by blast
  have yes: "isOriginAllowed (header req ''origin'') (get options ''origin'') \<and>
         req_headers req ''origin'' = Some s \<and> s \<noteq> [] \<longrightarrow>
           res_headers (res w') ''Access-Control-Allow-Origin'' = Some (JStr s)"
    unfolding w'(2) by (auto simp: header_def)
  have no: "\<not> isOriginAllowed (header req ''origin'') (get options ''origin'') \<or>
         req_headers req ''origin'' = None \<or> req_headers req ''origin'' = Some [] \<longrightarrow>
           res_headers (res w') ''Access-Control-Allow-Origin'' =
           res_headers (res w) ''Access-Control-Allow-Origin''"
    unfolding w'(2) by (auto simp: header_def)
  have "\<exists>w' fields. cors options req w = Inr w' \<and>
        res_vary (res w') = res_vary (res w) @ JStr ''Origin'' # fields \<and>
        (isOriginAllowed (header req ''origin'') (get options ''origin'') \<and>
         req_headers req ''origin'' = Some s \<and> s \<noteq> [] \<longrightarrow>
           res_headers (res w') ''Access-Control-Allow-Origin'' = Some (JStr s)) \<and>
        (\<not> isOriginAllowed (header req ''origin'') (get options ''origin'') \<or>
         req_headers req ''origin'' = None \<or> req_headers req ''origin'' = Some [] \<longrightarrow>
           res_headers (res w') ''Access-Control-Allow-Origin'' =
           res_headers (res w) ''Access-Control-Allow-Origin'')"
    using w'(1,3) yes no by (intro exI [of _ w'] exI [of _ fields] conjI)
  with m d show ?thesis by (intro conjI) simp_all
qed

theorem pattern_or_list_origin_witness:
  "\<not> nullish (get (defaults(''origin'' \<mapsto> JArr [JStr ''http://b.com'', JStr ''http://a.com''])) ''methods'') \<and>
   isOriginAllowed (JStr ''http://a.com'') (JArr [JStr ''http://b.com'', JStr ''http://a.com'']) \<and>
   (\<exists>w' fields.
      cors (defaults(''origin'' \<mapsto> JArr [JStr ''http://b.com'', JStr ''http://a.com'']))
        \<lparr>req_method = Some ''GET'', req_headers = [''origin'' \<mapsto> ''http://a.com'']\<rparr> start =
      Inr w' \<and>
      res_vary (res w') = JStr ''Origin'' # fields \<and>
      res_headers (res w') ''Access-Control-Allow-Origin'' = Some (JStr ''http://a.com'')) \<and>
   \<not> isOriginAllowed (JStr ''http://c.com'') (JArr [JStr ''http://b.com'', JStr ''http://a.com'']) \<and>
   (\<exists>w' fields.
      cors (defaults(''origin'' \<mapsto> JArr [JStr ''http://b.com'', JStr ''http://a.com'']))
        \<lparr>req_method = Some ''GET'', req_headers = [''origin'' \<mapsto> ''http://c.com'']\<rparr> start =
      Inr w' \<and>
      res_vary (res w') = JStr ''Origin'' # fields \<and>
      res_headers (res w') ''Access-Control-Allow-Origin'' = None)"
  using
    pattern_or_list_origin
      [where options = "defaults(''origin'' \<mapsto> JArr [JStr ''http://b.com'', JStr ''http://a.com''])"
         and rs = "[JStr ''http://b.com'', JStr ''http://a.com'']"
         and r = any_line
         and req = "\<lparr>req_method = Some ''GET'', req_headers = [''origin'' \<mapsto> ''http://a.com'']\<rparr>"
         and w = start and s = "''http://a.com''"
         and origin = "JStr ''http://a.com''" and x = "JStr ''http://b.com''"
         and xs = "[JStr ''http://a.com'']" and a = "''http://a.com''"
         and r' = any_line]
    pattern_or_list_origin
      [where options = "defaults(''origin'' \<mapsto> JArr [JStr ''http://b.com'', JStr ''http://a.com''])"
         and rs = "[JStr ''http://b.com'', JStr ''http://a.com'']"
         and r = any_line
         and req = "\<lparr>req_method = Some ''GET'', req_headers = [''origin'' \<mapsto> ''http://c.com'']\<rparr>"
         and w = start and s = "''http://c.com''"
         and origin = "JStr ''http://c.com''" and x = "JStr ''http://b.com''"
         and xs = "[JStr ''http://a.com'']" and a = "''http://a.com''"
         and r' = any_line]
  by (simp add: get_def defaults_def header_def start_def new_response_def)

text \<open>
  Claim C2 as stated fails where the match succeeds on a request whose \<open>Origin\<close> header
  is empty or absent (\<open>test\<close> is given the string \<open>undefined\<close> then): the directive's
  value is falsy and \<open>applyHeaders\<close> drops it. With the rule \<open>/.*/\<close> and either request,
  the response ends without an \<open>Access-Control-Allow-Origin\<close> header.
\<close>

theorem pattern_origin_counterexample:
  "isOriginAllowed
     (header \<lparr>req_method = Some ''GET'', req_headers = [''origin'' \<mapsto> '''']\<rparr> ''origin'')
     (JRegExp any_line) \<and>
   cors (defaults(''origin'' \<mapsto> JRegExp any_line))
     \<lparr>req_method = Some ''GET'', req_headers = [''origin'' \<mapsto> '''']\<rparr> start =
     Inr \<lparr>res = new_response\<lparr>res_vary := [JStr ''Origin'']\<rparr>,
          next_calls = [(JUndefined, new_response\<lparr>res_vary := [JStr ''Origin'']\<rparr>)]\<rparr> \<and>
   isOriginAllowed
     (header \<lparr>req_method = Some ''GET'', req_headers = Map.empty\<rparr> ''origin'')
     (JRegExp any_line) \<and>
   cors (defaults(''origin'' \<mapsto> JRegExp any_line))
     \<lparr>req_method = Some ''GET'', req_headers = Map.empty\<rparr> start =
     Inr \<lparr>res = new_response\<lparr>res_vary := [JStr ''Origin'']\<rparr>,
          next_calls = [(JUndefined, new_response\<lparr>res_vary := [JStr ''Origin'']\<rparr>)]\<rparr> \<and>
   res_headers (new_response\<lparr>res_vary := [JStr ''Origin'']\<rparr>) ''Access-Control-Allow-Origin'' = None"
  by (simp add: cors_GET actual_headers_def configureOrigin_def configureCredentials_def
        configureExposedHeaders_def test_def exec_def any_line_def get_def defaults_def
        header_def start_def new_response_def call_next_def vary_def setHeader_def)

text \<open>
  Claim C10, as amended. Let the \<open>origin\<close> option be truthy and neither a string, nor a
  regular expression, nor an array (and the \<open>methods\<close> option a value). Then
  \<open>isOriginAllowed\<close> returns the truthiness of the rule, true, for every origin;
  \<open>configureOrigin\<close> returns \<open>Access-Control-Allow-Origin\<close> with the request's
  \<open>Origin\<close> value, followed by \<open>Vary: Origin\<close>; and \<open>cors\<close> merges \<open>Origin\<close> into
  \<open>Vary\<close> and sets \<open>Access-Control-Allow-Origin\<close> to the request's \<open>Origin\<close> value
  when the request carries one that is not empty, leaving the header as it was when the
  request carries none or an empty one.
\<close>

theorem other_truthy_origin_rule:
  assumes "truthy (get options ''origin'')"
    and "\<forall>a. get options ''origin'' \<noteq> JStr a"
    and "\<forall>r. get options ''origin'' \<noteq> JRegExp r"
    and "\<forall>rs. get options ''origin'' \<noteq> JArr rs"
    and "\<not> nullish (get options ''methods'')"
  shows
    "isOriginAllowed origin (get options ''origin'') = truthy (get options ''origin'') \<and>
     isOriginAllowed origin (get options ''origin'') \<and>
     configureOrigin options req =
       [Directives [Directive ''Access-Control-Allow-Origin'' (header req ''origin'')],
        Directives [Directive ''Vary'' (JStr ''Origin'')]] \<and>
     (\<exists>w' fields. cors options req w = Inr w' \<and>
        res_vary (res w') = res_vary (res w) @ JStr ''Origin'' # fields \<and>
        (req_headers req ''origin'' = Some s \<and> s \<noteq> [] \<longrightarrow>
           res_headers (res w') ''Access-Control-Allow-Origin'' = Some (JStr s)) \<and>
        (req_headers req ''origin'' = None \<or> req_headers req ''origin'' = Some [] \<longrightarrow>
           res_headers (res w') ''Access-Control-Allow-Origin'' =
           res_headers (res w) ''Access-Control-Allow-Origin''))"
proof -
  have allowed: "isOriginAllowed origin (get options ''origin'') = truthy (get options ''origin'')"
    for origin
    using assms(2-4) by (cases "get options ''origin''") simp_all
  have rule: "truthy (get options ''origin'')" "\<not> isString (get options ''origin'')"
    using assms(1,2) by (simp_all add: isString_iff)
  have d: "configureOrigin options req =
       [Directives [Directive ''Access-Control-Allow-Origin'' (header req ''origin'')],
        Directives [Directive ''Vary'' (JStr ''Origin'')]]"
    unfolding configureOrigin_reflect [OF rule] using allowed assms(1) by simp
  obtain w' fields where w': "cors options req w = Inr w'"
    "res_headers (res w') ''Access-Control-Allow-Origin'' =
       (if isOriginAllowed (header req ''origin'') (get options ''origin'') \<and>
           truthy (header req ''origin'')
        then Some (header req ''origin'')
        else res_headers (res w) ''Access-Control-Allow-Origin'')"
    "res_vary (res w') = res_vary (res w) @ JStr ''Origin'' # fields"
    using cors_reflect [OF rule assms(5), of req w] by blast
  have yes: "req_headers req ''origin'' = Some s \<and> s \<noteq> [] \<longrightarrow>
           res_headers (res w') ''Access-Control-Allow-Origin'' = Some (JStr s)"
    unfolding w'(2) using allowed assms(1) by (auto simp: header_def)
  have no: "req_headers req ''origin'' = None \<or> req_headers req ''origin'' = Some [] \<longrightarrow>
           res_headers (res w') ''Access-Control-Allow-Origin'' =
           res_headers (res w) ''Access-Control-Allow-Origin''"
    unfolding w'(2) by (auto simp: header_def)
  have "\<exists>w' fields. cors options req w = Inr w' \<and>
        res_vary (res w') = res_vary (res w) @ JStr ''Origin'' # fields \<and>
        (req_headers req ''origin'' = Some s \<and> s \<noteq> [] \<longrightarrow>
           res_headers (res w') ''Access-Control-Allow-Origin'' = Some (JStr s)) \<and>
        (req_headers req ''origin'' = None \<or> req_headers req ''origin'' = Some [] \<longrightarrow>
           res_headers (res w') ''Access-Control-Allow-Origin'' =
           res_headers (res w) ''Access-Control-Allow-Origin'')"
    using w'(1,3) yes no by (intro exI [of _ w'] exI [of _ fields] conjI)
  with allowed assms(1) d show ?thesis by (intro conjI) simp_all
qed

theorem other_truthy_origin_rule_witness:
  "truthy (get (defaults(''origin'' \<mapsto> JBool True)) ''origin'') \<and>
   \<not> nullish (get (defaults(''origin'' \<mapsto> JBool True)) ''methods'') \<and>
   isOriginAllowed (JStr ''http://a.com'') (JBool True) \<and>
   configureOrigin (defaults(''origin'' \<mapsto> JBool True))
     \<lparr>req_method = Some ''GET'', req_headers = [''origin'' \<mapsto> ''http://a.com'']\<rparr> =
     [Directives [Directive ''Access-Control-Allow-Origin'' (JStr ''http://a.com'')],
      Directives [Directive ''Vary'' (JStr ''Origin'')]] \<and>
   (\<exists>w' fields.
      cors (defaults(''origin'' \<mapsto> JBool True))
        \<lparr>req_method = Some ''GET'', req_headers = [''origin'' \<mapsto> ''http://a.com'']\<rparr> start =
      Inr w' \<and>
      res_vary (res w') = JStr ''Origin'' # fields \<and>
      res_headers (res w') ''Access-Control-Allow-Origin'' = Some (JStr ''http://a.com''))"
  using other_truthy_origin_rule
      [where options = "defaults(''origin'' \<mapsto> JBool True)"
         and req = "\<lparr>req_method = Some ''GET'', req_headers = [''origin'' \<mapsto> ''http://a.com'']\<rparr>"
         and w = start and s = "''http://a.com''" and origin = "JStr ''http://a.com''"]
  by (simp add: get_def defaults_def header_def start_def new_response_def)

text \<open>
  Claim C10 as stated fails on a request that carries an \<open>Origin\<close> header with an empty
  value: with the rule \<open>true\<close> the response ends without an
  \<open>Access-Control-Allow-Origin\<close> header.
\<close>

theorem other_truthy_origin_rule_counterexample:
  "req_headers \<lparr>req_method = Some ''GET'', req_headers = [''origin'' \<mapsto> '''']\<rparr> ''origin'' =
     Some '''' \<and>
   isOriginAllowed
     (header \<lparr>req_method = Some ''GET'', req_headers = [''origin'' \<mapsto> '''']\<rparr> ''origin'')
     (JBool True) \<and>
   cors (defaults(''origin'' \<mapsto> JBool True))
     \<lparr>req_method = Some ''GET'', req_headers = [''origin'' \<mapsto> '''']\<rparr> start =
     Inr \<lparr>res = new_response\<lparr>res_vary := [JStr ''Origin'']\<rparr>,
          next_calls = [(JUndefined, new_response\<lparr>res_vary := [JStr ''Origin'']\<rparr>)]\<rparr> \<and>
   res_headers (new_response\<lparr>res_vary := [JStr ''Origin'']\<rparr>) ''Access-Control-Allow-Origin'' = None"
  by (simp add: cors_def method_upper_def toUpperCase_def Let_def
        actual_headers_def configureOrigin_def configureCredentials_def
        configureExposedHeaders_def get_def defaults_def header_def start_def new_response_def
        call_next_def vary_def setHeader_def)

section \<open>A falsy origin\<close>

text \<open>
  Claim C4. Let the options callback deliver options without an error.
  \<^item> If the \<open>origin\<close> of the options merged over the defaults is falsy, the middleware
    calls the continuation once, without an argument, and leaves the response as it
    was.
  \<^item> If that \<open>origin\<close> is a function which delivers a falsy error and a falsy origin,
    the middleware calls the continuation once, with that falsy error as its argument,
    and leaves the response as it was.
  \<^item> If the origin callback (the function, or the one wrapped around a static truthy
    \<open>origin\<close>) delivers a falsy error and a truthy rule, the middleware is \<open>cors\<close> run
    with that rule; when the rule is not a string and does not allow the request's
    origin (and the \<open>methods\<close> option is a value), \<open>configureOrigin\<close> returns
    \<open>Access-Control-Allow-Origin: false\<close> and \<open>Vary: Origin\<close>, and the middleware ends with
    \<open>Origin\<close> merged into \<open>Vary\<close> and the header \<open>Access-Control-Allow-Origin\<close> as it
    was.
\<close>

theorem falsy_origin_passes_through:
  assumes "optionsCallback arg req = Some (err, opts)" and "\<not> truthy err"
  shows
    "(\<not> truthy (get (assign defaults opts) ''origin'') \<longrightarrow>
        (\<exists>w'. middlewareWrapper arg req w = Inr w' \<and> res w' = res w \<and>
               next_calls w' = next_calls w @ [(JUndefined, res w)])) \<and>
     (get (assign defaults opts) ''origin'' = JFun n src f \<and>
      f (req_headers req ''origin'') = Some (oerr, v) \<and> \<not> truthy oerr \<and> \<not> truthy v \<longrightarrow>
        (\<exists>w'. middlewareWrapper arg req w = Inr w' \<and> res w' = res w \<and>
               next_calls w' = next_calls w @ [(oerr, res w)])) \<and>
     (originCallback (assign defaults opts) = Some cb \<and>
      cb (req_headers req ''origin'') = Some (rerr, rule) \<and> \<not> truthy rerr \<and> truthy rule \<longrightarrow>
        middlewareWrapper arg req w = cors ((assign defaults opts)(''origin'' \<mapsto> rule)) req w \<and>
        (\<not> isString rule \<and> \<not> isOriginAllowed (header req ''origin'') rule \<and>
         \<not> nullish (get (assign defaults opts) ''methods'') \<longrightarrow>
           configureOrigin ((assign defaults opts)(''origin'' \<mapsto> rule)) req =
             [Directives [Directive ''Access-Control-Allow-Origin'' (JBool False)],
              Directives [Directive ''Vary'' (JStr ''Origin'')]] \<and>
           (\<exists>w' fields. middlewareWrapper arg req w = Inr w' \<and>
              res_vary (res w') = res_vary (res w) @ JStr ''Origin'' # fields \<and>
              res_headers (res w') ''Access-Control-Allow-Origin'' =
              res_headers (res w) ''Access-Control-Allow-Origin'')))"
proof (intro conjI impI)
  let ?C = "assign defaults opts"
  assume "\<not> truthy (get ?C ''origin'')"
  then have "originCallback ?C = None"
    by (simp add: originCallback_None)
  then have "middlewareWrapper arg req w = Inr (call_next JUndefined w)"
    using assms by (simp add: middlewareWrapper_def)
  then show "\<exists>w'. middlewareWrapper arg req w = Inr w' \<and> res w' = res w \<and>
               next_calls w' = next_calls w @ [(JUndefined, res w)]"
    by (simp add: call_next_def)
next
  let ?C = "assign defaults opts"
  assume a: "get ?C ''origin'' = JFun n src f \<and>
      f (req_headers req ''origin'') = Some (oerr, v) \<and> \<not> truthy oerr \<and> \<not> truthy v"
  then have "originCallback ?C = Some f"
    by (simp add: originCallback_def)
  then have "middlewareWrapper arg req w = Inr (call_next oerr w)"
    using assms a by (simp add: middlewareWrapper_def)
  then show "\<exists>w'. middlewareWrapper arg req w = Inr w' \<and> res w' = res w \<and>
               next_calls w' = next_calls w @ [(oerr, res w)]"
    by (simp add: call_next_def)
next
  let ?C = "assign defaults opts"
  assume a: "originCallback ?C = Some cb \<and>
      cb (req_headers req ''origin'') = Some (rerr, rule) \<and> \<not> truthy rerr \<and> truthy rule"
  then show run: "middlewareWrapper arg req w = cors (?C(''origin'' \<mapsto> rule)) req w"
    using assms by (simp add: middlewareWrapper_def)
  assume b: "\<not> isString rule \<and> \<not> isOriginAllowed (header req ''origin'') rule \<and>
         \<not> nullish (get ?C ''methods'')"
  have o: "get (?C(''origin'' \<mapsto> rule)) ''origin'' = rule"
    and m: "get (?C(''origin'' \<mapsto> rule)) ''methods'' = get ?C ''methods''"
    by (simp_all add: get_def)
  have rule: "truthy (get (?C(''origin'' \<mapsto> rule)) ''origin'')"
    "\<not> isString (get (?C(''origin'' \<mapsto> rule)) ''origin'')"
    "\<not> nullish (get (?C(''origin'' \<mapsto> rule)) ''methods'')"
    unfolding o m using a b by simp_all
  show "configureOrigin (?C(''origin'' \<mapsto> rule)) req =
             [Directives [Directive ''Access-Control-Allow-Origin'' (JBool False)],
              Directives [Directive ''Vary'' (JStr ''Origin'')]]"
    unfolding configureOrigin_reflect [OF rule(1,2)] o using b by simp
  obtain w' fields where w': "cors (?C(''origin'' \<mapsto> rule)) req w = Inr w'"
    "res_headers (res w') ''Access-Control-Allow-Origin'' =
       (if isOriginAllowed (header req ''origin'') (get (?C(''origin'' \<mapsto> rule)) ''origin'') \<and>
           truthy (header req ''origin'')
        then Some (header req ''origin'')
        else res_headers (res w) ''Access-Control-Allow-Origin'')"
    "res_vary (res w') = res_vary (res w) @ JStr ''Origin'' # fields"
    using cors_reflect [OF rule, of req w] by blast
  have h: "res_headers (res w') ''Access-Control-Allow-Origin'' =
           res_headers (res w) ''Access-Control-Allow-Origin''"
    unfolding w'(2) o using b by simp
  from w'(1,3) h show "\<exists>w' fields. middlewareWrapper arg req w = Inr w' \<and>
              res_vary (res w') = res_vary (res w) @ JStr ''Origin'' # fields \<and>
              res_headers (res w') ''Access-Control-Allow-Origin'' =
              res_headers (res w) ''Access-Control-Allow-Origin''"
    unfolding run by (intro exI [of _ w'] exI [of _ fields] conjI)
qed

theorem falsy_origin_passes_through_witness:
  "(\<exists>w'. middlewareWrapper (StaticOptions (Some [''origin'' \<mapsto> JBool False]))
            \<lparr>req_method = Some ''GET'', req_headers = [''origin'' \<mapsto> ''http://a.com'']\<rparr> start =
          Inr w' \<and>
          res w' = new_response \<and> next_calls w' = [(JUndefined, new_response)]) \<and>
   (\<exists>w'. middlewareWrapper
            (StaticOptions (Some [''origin'' \<mapsto> JFun 2 ''function'' (\<lambda>origin. Some (JNull, JBool False))]))
            \<lparr>req_method = Some ''GET'', req_headers = [''origin'' \<mapsto> ''http://a.com'']\<rparr> start =
          Inr w' \<and>
          res w' = new_response \<and> next_calls w' = [(JNull, new_response)]) \<and>
   \<not> isOriginAllowed (JStr ''http://b.com'') (JArr [JStr ''http://a.com'']) \<and>
   (\<exists>w' fields.
      middlewareWrapper (StaticOptions (Some [''origin'' \<mapsto> JArr [JStr ''http://a.com'']]))
        \<lparr>req_method = Some ''GET'', req_headers = [''origin'' \<mapsto> ''http://b.com'']\<rparr> start =
      Inr w' \<and>
      res_vary (res w') = JStr ''Origin'' # fields \<and>
      res_headers (res w') ''Access-Control-Allow-Origin'' = None)"
proof -
  let ?get = "\<lparr>req_method = Some ''GET'', req_headers = [''origin'' \<mapsto> ''http://a.com'']\<rparr>"
  let ?other = "\<lparr>req_method = Some ''GET'', req_headers = [''origin'' \<mapsto> ''http://b.com'']\<rparr>"
  let ?never = "\<lambda>origin :: string option. None :: (jsval \<times> jsval) option"
  let ?no = "\<lambda>origin :: string option. Some (JNull, JBool False)"
  let ?list = "JArr [JStr ''http://a.com'']"
  have 1: "\<exists>w'. middlewareWrapper (StaticOptions (Some [''origin'' \<mapsto> JBool False])) ?get start =
              Inr w' \<and>
            res w' = new_response \<and> next_calls w' = [(JUndefined, new_response)]"
    using falsy_origin_passes_through
      [where arg = "StaticOptions (Some [''origin'' \<mapsto> JBool False])" and req = ?get
         and err = JNull and opts = "Some [''origin'' \<mapsto> JBool False]" and w = start
         and n = 0 and src = "[]" and f = ?never and oerr = JNull and v = JNull
         and cb = ?never and rerr = JNull and rule = JNull]
    by (simp add: optionsCallback_def assign_def get_def defaults_def start_def)
  have 2: "\<exists>w'. middlewareWrapper (StaticOptions (Some [''origin'' \<mapsto> JFun 2 ''function'' ?no]))
              ?get start = Inr w' \<and>
            res w' = new_response \<and> next_calls w' = [(JNull, new_response)]"
    using falsy_origin_passes_through
      [where arg = "StaticOptions (Some [''origin'' \<mapsto> JFun 2 ''function'' ?no])" and req = ?get
         and err = JNull and opts = "Some [''origin'' \<mapsto> JFun 2 ''function'' ?no]" and w = start
         and n = 2 and src = "''function''" and f = ?no and oerr = JNull and v = "JBool False"
         and cb = ?never and rerr = JNull and rule = JNull]
    by (simp add: optionsCallback_def assign_def get_def defaults_def start_def)
  have no: "\<not> isOriginAllowed (JStr ''http://b.com'') ?list"
    by simp
  have cb: "originCallback (assign defaults (Some [''origin'' \<mapsto> ?list])) =
              Some (\<lambda>origin. Some (JNull, ?list))"
    by (simp add: originCallback_def assign_def get_def defaults_def)
  have m: "\<not> nullish (get (assign defaults (Some [''origin'' \<mapsto> ?list])) ''methods'')"
    by (simp add: assign_def get_def defaults_def)
  have oc: "optionsCallback (StaticOptions (Some [''origin'' \<mapsto> ?list])) ?other =
              Some (JNull, Some [''origin'' \<mapsto> ?list])"
    and nt: "\<not> truthy JNull"
    by (simp_all add: optionsCallback_def)
  have p1: "originCallback (assign defaults (Some [''origin'' \<mapsto> ?list])) =
              Some (\<lambda>origin. Some (JNull, ?list)) \<and>
            (\<lambda>origin. Some (JNull, ?list)) (req_headers ?other ''origin'') = Some (JNull, ?list) \<and>
            \<not> truthy JNull \<and> truthy ?list"
    using cb by simp
  have p2: "\<not> isString ?list \<and> \<not> isOriginAllowed (header ?other ''origin'') ?list \<and>
            \<not> nullish (get (assign defaults (Some [''origin'' \<mapsto> ?list])) ''methods'')"
    using m by (simp add: header_def)
  note t = falsy_origin_passes_through
      [where arg = "StaticOptions (Some [''origin'' \<mapsto> ?list])" and req = ?other
         and err = JNull and opts = "Some [''origin'' \<mapsto> ?list]" and w = start
         and n = 0 and src = "[]" and f = ?never and oerr = JNull and v = JNull
         and cb = "\<lambda>origin. Some (JNull, ?list)" and rerr = JNull and rule = ?list,
       OF oc nt, THEN conjunct2, THEN conjunct2, THEN mp, OF p1, THEN conjunct2,
       THEN mp, OF p2, THEN conjunct2]
  from t have "\<exists>w' fields. middlewareWrapper (StaticOptions (Some [''origin'' \<mapsto> ?list])) ?other start =
              Inr w' \<and>
            res_vary (res w') = res_vary (res start) @ JStr ''Origin'' # fields \<and>
            res_headers (res w') ''Access-Control-Allow-Origin'' =
            res_headers (res start) ''Access-Control-Allow-Origin''" .
  then have 3: "\<exists>w' fields. middlewareWrapper (StaticOptions (Some [''origin'' \<mapsto> ?list])) ?other start =
              Inr w' \<and>
            res_vary (res w') = JStr ''Origin'' # fields \<and>
            res_headers (res w') ''Access-Control-Allow-Origin'' = None"
    by (simp add: start_def new_response_def)
  from 1 2 no 3 show ?thesis by (intro conjI)
qed

end
